theory Spec2Isabelle
  imports Main
begin

section \<open>Python values, exceptions and the host application\<close>

text \<open>
  The module \<^verbatim>\<open>TCPServer.py\<close> is Python 2. Its exceptions are values of \<open>error\<close>;
  a call that may raise returns \<open>error + 'a\<close> with \<open>Inl\<close> for the exception.
  \<open>socket_error\<close> is \<^verbatim>\<open>socket.error\<close>; the others carry their Python names.
\<close>

datatype error =
    ProgrammingError
  | ServerOperationError
  | AssertionError
  | TypeError
  | ValueError
  | IndexError
  | AttributeError
  | socket_error

text \<open>The four request handler classes of the module.\<close>

datatype handler_kind =
    EchoRequestsHandler
  | LoggingStackDataRequestsHandler
  | DefaultStackDataRequestsHandler
  | PythonStackDataRequestsHandler

text \<open>
  The Python values that reach the constructor and the setters of \<^verbatim>\<open>TCPServer\<close>:
  \<open>PyInt\<close> is a value whose type is \<^verbatim>\<open>int\<close>, \<open>PyLong\<close> one whose type is
  \<^verbatim>\<open>long\<close>, \<open>PyHandlerClass\<close> a subclass of \<^verbatim>\<open>SocketServer.BaseRequestHandler\<close>
  and \<open>PyOtherClass\<close> a class that is not such a subclass.
\<close>

datatype pyval =
    PyNone
  | PyBool bool
  | PyInt int
  | PyLong int
  | PyStr string
  | PyUnicode string
  | PyHandlerClass handler_kind
  | PyOtherClass string

text \<open>
  The host (\<^verbatim>\<open>Application\<close>, \<^verbatim>\<open>os.path\<close>) is outside the module. Its state is a
  type parameter \<open>'h\<close>; running a script may change it. The values a script returns are
  kept as the text \<^verbatim>\<open>"%s"\<close> gives them. Every call the module makes to the host is
  recorded, in order, as a \<open>host_call\<close>.
  The \<^verbatim>\<open>Application\<close> calls are taken to return: a script that raises is outside
  the model. \<open>os_path_exists\<close> is the file system's answer for a path text that
  \<^verbatim>\<open>os.stat\<close> accepts.
\<close>

datatype severity = siInfo | siWarning | siVerbose

datatype host_call =
    CallExecuteScript string
  | CallExecuteScriptCode string string
  | CallLogMessage string "severity option"

record 'h host =
  os_path_exists :: "'h \<Rightarrow> string \<Rightarrow> bool"
  Application_ExecuteScript :: "string \<Rightarrow> 'h \<Rightarrow> string \<times> 'h"
  Application_ExecuteScriptCode :: "string \<Rightarrow> string \<Rightarrow> 'h \<Rightarrow> string \<times> 'h"

text \<open>
  A host for concrete runs: the paths that exist are the listed ones, and every script
  returns \<^verbatim>\<open>None\<close>.
\<close>

definition listed_files_host :: "string list \<Rightarrow> unit host" where
  "listed_files_host files =
     \<lparr>os_path_exists = (\<lambda>h p. p \<in> set files),
      Application_ExecuteScript = (\<lambda>p h. (''None'', h)),
      Application_ExecuteScriptCode = (\<lambda>c l h. (''None'', h))\<rparr>"

text \<open>
  \<^verbatim>\<open>os.path.exists(path)\<close> in Python 2: \<^verbatim>\<open>os.stat\<close> raises TypeError for a text
  with a NUL byte, and \<^verbatim>\<open>exists\<close> catches \<^verbatim>\<open>os.error\<close> only, so the TypeError
  reaches the caller. Any other text is looked up in the file system.
\<close>

definition py_os_path_exists :: "'h host \<Rightarrow> 'h \<Rightarrow> string \<Rightarrow> error + bool" where
  "py_os_path_exists H h path =
     (if CHR 0x00 \<in> set path then Inl TypeError else Inr (os_path_exists H h path))"

section \<open>Python string and list operations used by the module\<close>

text \<open>\<^verbatim>\<open>s.find(sub)\<close>: the index of the first occurrence, \<open>-1\<close> when there is none.\<close>

fun py_find :: "string \<Rightarrow> string \<Rightarrow> int" where
  "py_find [] sub = (if sub = [] then 0 else - 1)"
| "py_find (c # cs) sub =
     (if take (length sub) (c # cs) = sub then 0
      else (let k = py_find cs sub in if k < 0 then - 1 else k + 1))"

text \<open>\<^verbatim>\<open>sub in s\<close> on strings.\<close>

definition py_in :: "string \<Rightarrow> string \<Rightarrow> bool" where
  "py_in sub s = (0 \<le> py_find s sub)"

text \<open>\<^verbatim>\<open>xs[:k]\<close>; a negative \<open>k\<close> counts from the end.\<close>

definition py_slice_to :: "'a list \<Rightarrow> int \<Rightarrow> 'a list" where
  "py_slice_to xs k =
     (if 0 \<le> k then take (nat k) xs else take (length xs - nat (- k)) xs)"

text \<open>\<^verbatim>\<open>xs[i]\<close>, \<^verbatim>\<open>xs[i] = v\<close> and \<^verbatim>\<open>xs.pop()\<close>: out of range raises IndexError.\<close>

definition py_getitem :: "'a list \<Rightarrow> int \<Rightarrow> error + 'a" where
  "py_getitem xs i =
     (let n = int (length xs); j = (if i < 0 then i + n else i)
      in if 0 \<le> j \<and> j < n then Inr (xs ! nat j) else Inl IndexError)"

definition py_setitem :: "'a list \<Rightarrow> int \<Rightarrow> 'a \<Rightarrow> error + 'a list" where
  "py_setitem xs i v =
     (let n = int (length xs); j = (if i < 0 then i + n else i)
      in if 0 \<le> j \<and> j < n then Inr (xs[nat j := v]) else Inl IndexError)"

definition py_pop :: "'a list \<Rightarrow> error + 'a list" where
  "py_pop xs = (if xs = [] then Inl IndexError else Inr (butlast xs))"

text \<open>
  The characters \<^verbatim>\<open>str.strip()\<close> removes and the regular expression class
  \<^verbatim>\<open>\s\<close> matches on a byte string: space, tab, line feed, vertical tab, form feed,
  carriage return.
\<close>

definition is_space :: "char \<Rightarrow> bool" where
  "is_space c = (c \<in> set [CHR 0x20, CHR 0x09, CHR 0x0A, CHR 0x0B, CHR 0x0C, CHR 0x0D])"

definition py_strip :: "string \<Rightarrow> string" where
  "py_strip s = rev (dropWhile is_space (rev (dropWhile is_space s)))"

text \<open>
  \<^verbatim>\<open>fmt % args\<close> for the formats of this module, whose only conversion is
  \<^verbatim>\<open>%s\<close>; \<open>args\<close> are the arguments already converted to text. Too few
  arguments and arguments left over both raise TypeError; a \<^verbatim>\<open>%\<close> followed by
  anything else than \<^verbatim>\<open>s\<close> is outside these formats and raises ValueError.
\<close>

fun py_format :: "string \<Rightarrow> string list \<Rightarrow> error + string" where
  "py_format [] args = (if args = [] then Inr [] else Inl TypeError)"
| "py_format [c] args =
     (if c = CHR ''%'' then Inl ValueError
      else if args = [] then Inr [c] else Inl TypeError)"
| "py_format (c # d # cs) args =
     (if c = CHR ''%'' then
        (if d = CHR ''s'' then
           (case args of
              [] \<Rightarrow> Inl TypeError
            | a # as \<Rightarrow>
               (case py_format cs as of Inl e \<Rightarrow> Inl e | Inr r \<Rightarrow> Inr (a @ r)))
         else Inl ValueError)
      else (case py_format (d # cs) args of Inl e \<Rightarrow> Inl e | Inr r \<Rightarrow> Inr (c # r)))"

text \<open>Decimal text of an integer, for \<^verbatim>\<open>"%s" % port\<close>.\<close>

fun string_of_nat :: "nat \<Rightarrow> string" where
  "string_of_nat n =
     (if n < 10 then [char_of (48 + n)]
      else string_of_nat (n div 10) @ [char_of (48 + n mod 10)])"

definition string_of_int :: "int \<Rightarrow> string" where
  "string_of_int i =
     (if i < 0 then CHR ''-'' # string_of_nat (nat (- i)) else string_of_nat (nat i))"

text \<open>
  \<^verbatim>\<open>cls.__name__\<close>; a value that is not a class has no such attribute.
\<close>

definition handler_name :: "handler_kind \<Rightarrow> string" where
  "handler_name k =
     (case k of
        EchoRequestsHandler \<Rightarrow> ''EchoRequestsHandler''
      | LoggingStackDataRequestsHandler \<Rightarrow> ''LoggingStackDataRequestsHandler''
      | DefaultStackDataRequestsHandler \<Rightarrow> ''DefaultStackDataRequestsHandler''
      | PythonStackDataRequestsHandler \<Rightarrow> ''PythonStackDataRequestsHandler'')"

definition py_name :: "pyval \<Rightarrow> error + string" where
  "py_name v =
     (case v of
        PyHandlerClass k \<Rightarrow> Inr (handler_name k)
      | PyOtherClass n \<Rightarrow> Inr n
      | _ \<Rightarrow> Inl AttributeError)"

text \<open>
  \<^verbatim>\<open>"%s"\<close> of a value. The setters below let only None, str, unicode and int
  into the address and the port, the two values the module formats; the text of a
  class object is not used anywhere and is given by its name.
\<close>

definition py_str :: "pyval \<Rightarrow> string" where
  "py_str v =
     (case v of
        PyNone \<Rightarrow> ''None''
      | PyBool b \<Rightarrow> (if b then ''True'' else ''False'')
      | PyInt i \<Rightarrow> string_of_int i
      | PyLong i \<Rightarrow> string_of_int i
      | PyStr s \<Rightarrow> s
      | PyUnicode s \<Rightarrow> s
      | PyHandlerClass k \<Rightarrow> handler_name k
      | PyOtherClass n \<Rightarrow> n)"

text \<open>\<^verbatim>\<open>v == n\<close> for an integer literal \<open>n\<close>.\<close>

definition py_eq_int :: "pyval \<Rightarrow> int \<Rightarrow> bool" where
  "py_eq_int v n =
     (case v of
        PyInt i \<Rightarrow> i = n
      | PyLong i \<Rightarrow> i = n
      | PyBool b \<Rightarrow> (if b then 1 else 0) = n
      | _ \<Rightarrow> False)"

section \<open>Constants\<close>

definition Constants_name :: string where
  "Constants_name = ''TCPServer''"

definition Constants_languages :: "string list" where
  "Constants_languages = [''VBScript'', ''JScript'', ''Python'', ''PythonScript'', ''PerlScript'']"

definition requestEnd :: string where
  "requestEnd = ''<!RE>''"

section \<open>The request handlers\<close>

text \<open>
  \<^verbatim>\<open>Runtime.requestsStack\<close> is a deque of strings: a list, appended at the right
  and popped at the left. A connection is the list of the values the successive
  \<^verbatim>\<open>self.request.recv(1024)\<close> return; past its end the peer has closed and
  \<^verbatim>\<open>recv\<close> returns the empty string.
\<close>

subsection \<open>PythonStackDataRequestsHandler.handle\<close>

text \<open>
  The \<^verbatim>\<open>while True\<close> loop of \<^verbatim>\<open>handle\<close>, with \<open>allData\<close> as its state. It is left
  by one of three \<^verbatim>\<open>break\<close>s, which the result names: the zero-length read, the
  terminator inside the chunk just read, the terminator inside \<^verbatim>\<open>tail\<close>; or by an
  exception. The guard of the look-back is the source's \<^verbatim>\<open>len(allData) >=1\<close>.
\<close>

datatype loop_exit = PeerClosed | EndInChunk | EndInTail

fun handle_loop :: "string list \<Rightarrow> string list \<Rightarrow> error + (loop_exit \<times> string list)" where
  "handle_loop allData [] = Inr (PeerClosed, allData)"
| "handle_loop allData (data # rest) =
     (if data = [] then Inr (PeerClosed, allData)
      else if py_in requestEnd data
      then Inr (EndInChunk, allData @ [py_slice_to data (py_find data requestEnd)])
      else
        (let allData1 = allData @ [data] in
         if 1 \<le> length allData1 then
           (case py_getitem allData1 (- 2) of
              Inl e \<Rightarrow> Inl e
            | Inr a \<Rightarrow>
               (case py_getitem allData1 (- 1) of
                  Inl e \<Rightarrow> Inl e
                | Inr b \<Rightarrow>
                   (let tail = a @ b in
                    if py_in requestEnd tail then
                      (case py_setitem allData1 (- 2)
                              (py_slice_to tail (py_find tail requestEnd)) of
                         Inl e \<Rightarrow> Inl e
                       | Inr allData2 \<Rightarrow>
                          (case py_pop allData2 of
                             Inl e \<Rightarrow> Inl e
                           | Inr allData3 \<Rightarrow> Inr (EndInTail, allData3)))
                    else handle_loop allData1 rest)))
         else handle_loop allData1 rest))"

text \<open>
  \<^verbatim>\<open>handle\<close>: the loop from the empty \<open>allData\<close>, then the push of
  \<^verbatim>\<open>"".join(allData)\<close>. The result is the returned value or the exception, and the
  requests stack afterwards.
\<close>

definition PythonStackDataRequestsHandler_handle ::
    "string list \<Rightarrow> string list \<Rightarrow> (error + pyval) \<times> string list" where
  "PythonStackDataRequestsHandler_handle connection requestsStack =
     (case handle_loop [] connection of
        Inl e \<Rightarrow> (Inl e, requestsStack)
      | Inr (x, allData) \<Rightarrow> (Inr (PyBool True), requestsStack @ [concat allData]))"

subsection \<open>processData\<close>



text \<open>
  \<^verbatim>\<open>re.match(r"\s*(?P<language>%s)\s*\|(?P<code>.*)" % language, data)\<close> for a
  \<open>language\<close> of letters only, as the five of \<open>Constants_languages\<close> are: white
  space, the literal, white space, a bar, then the rest of the line (\<^verbatim>\<open>.\<close> does not
  match a line feed). The result is the pair of the groups \<^verbatim>\<open>language\<close> and
  \<^verbatim>\<open>code\<close>.
\<close>

definition re_match_language :: "string \<Rightarrow> string \<Rightarrow> (string \<times> string) option" where
  "re_match_language language data =
     (let s1 = dropWhile is_space data in
      if take (length language) s1 = language then
        (case dropWhile is_space (drop (length language) s1) of
           [] \<Rightarrow> None
         | c # s3 \<Rightarrow>
            (if c = CHR ''|'' then Some (language, takeWhile (\<lambda>c. c \<noteq> CHR 0x0A) s3)
             else None))
      else None)"

text \<open>
  The \<^verbatim>\<open>for language in Constants.languages\<close> loop of
  \<^verbatim>\<open>DefaultStackDataRequestsHandler.processData\<close>: the first language that matches
  is executed, its value logged, and the loop left.
\<close>

fun for_languages ::
    "'h host \<Rightarrow> string list \<Rightarrow> string \<Rightarrow> 'h \<Rightarrow> host_call list
      \<Rightarrow> error option \<times> 'h \<times> host_call list" where
  "for_languages H [] data h calls = (None, h, calls)"
| "for_languages H (language # languages) data h calls =
     (case re_match_language language data of
        None \<Rightarrow> for_languages H languages data h calls
      | Some (lang, code) \<Rightarrow>
         (let (value, h1) = Application_ExecuteScriptCode H code lang h;
              calls1 = calls @ [CallExecuteScriptCode code lang]
          in case py_format ''%s | Request return value: '%s'.'' [Constants_name, value] of
               Inl e \<Rightarrow> (Some e, h1, calls1)
             | Inr msg \<Rightarrow> (None, h1, calls1 @ [CallLogMessage msg (Some siVerbose)])))"

fun DefaultStackDataRequestsHandler_processData ::
    "'h host \<Rightarrow> string list \<Rightarrow> 'h \<Rightarrow> host_call list
      \<Rightarrow> (error + pyval) \<times> string list \<times> 'h \<times> host_call list" where
  "DefaultStackDataRequestsHandler_processData H [] h calls =
     (Inr (PyBool True), [], h, calls)"
| "DefaultStackDataRequestsHandler_processData H (x # requestsStack) h calls =
     (let data = py_strip x in
      case py_os_path_exists H h data of
        Inl e \<Rightarrow> (Inl e, requestsStack, h, calls)
      | Inr found \<Rightarrow>
         (if found then
            (let (value, h1) = Application_ExecuteScript H data h
             in DefaultStackDataRequestsHandler_processData H requestsStack h1
                  (calls @ [CallExecuteScript data]))
          else
            (case for_languages H Constants_languages data h calls of
               (Some e, h1, calls1) \<Rightarrow> (Inl e, requestsStack, h1, calls1)
             | (None, h1, calls1) \<Rightarrow>
                DefaultStackDataRequestsHandler_processData H requestsStack h1 calls1)))"

fun PythonStackDataRequestsHandler_processData ::
    "'h host \<Rightarrow> string list \<Rightarrow> 'h \<Rightarrow> host_call list
      \<Rightarrow> (error + pyval) \<times> string list \<times> 'h \<times> host_call list" where
  "PythonStackDataRequestsHandler_processData H [] h calls =
     (Inr (PyBool True), [], h, calls)"
| "PythonStackDataRequestsHandler_processData H (x # requestsStack) h calls =
     (let (value, h1) = Application_ExecuteScriptCode H x ''Python'' h;
          calls1 = calls @ [CallExecuteScriptCode x ''Python'']
      in case py_format ''%s | Request return value: '%s'.'' [Constants_name, value] of
           Inl e \<Rightarrow> (Inl e, requestsStack, h1, calls1)
         | Inr msg \<Rightarrow>
            PythonStackDataRequestsHandler_processData H requestsStack h1
              (calls1 @ [CallLogMessage msg (Some siVerbose)]))"


section \<open>The class TCPServer\<close>

text \<open>
  The private attributes of an instance. \<open>server\<close> holds the arguments the
  \<^verbatim>\<open>SocketServer.TCPServer\<close> was made with, \<open>worker\<close> the thread's daemon flag;
  both are None while the server is offline.
\<close>

record TCPServer =
  address :: pyval
  port :: pyval
  handler :: pyval
  server :: "(pyval \<times> pyval \<times> pyval) option"
  worker :: "bool option"
  online :: bool

definition address_get :: "TCPServer \<Rightarrow> pyval" where
  "address_get self = address self"

definition address_set :: "pyval \<Rightarrow> TCPServer \<Rightarrow> error + TCPServer" where
  "address_set v self =
     (if v \<noteq> PyNone \<and> \<not> (case v of PyStr s \<Rightarrow> True | PyUnicode s \<Rightarrow> True | _ \<Rightarrow> False)
      then Inl AssertionError
      else Inr (self\<lparr>address := v\<rparr>))"

definition address_delete :: "TCPServer \<Rightarrow> error + TCPServer" where
  "address_delete self = Inl ProgrammingError"

definition port_get :: "TCPServer \<Rightarrow> pyval" where
  "port_get self = port self"

definition port_set :: "pyval \<Rightarrow> TCPServer \<Rightarrow> error + TCPServer" where
  "port_set v self =
     (if v \<noteq> PyNone \<and> \<not> (case v of PyInt i \<Rightarrow> True | _ \<Rightarrow> False)
      then Inl AssertionError
      else Inr (self\<lparr>port := v\<rparr>))"

definition port_delete :: "TCPServer \<Rightarrow> error + TCPServer" where
  "port_delete self = Inl ProgrammingError"

text \<open>
  \<^verbatim>\<open>issubclass(value, SocketServer.BaseRequestHandler)\<close> raises TypeError when
  \<open>value\<close> is not a class.
\<close>

definition handler_get :: "TCPServer \<Rightarrow> pyval" where
  "handler_get self = handler self"

definition handler_set :: "pyval \<Rightarrow> TCPServer \<Rightarrow> error + TCPServer" where
  "handler_set v self =
     (case v of
        PyNone \<Rightarrow> Inr (self\<lparr>handler := v\<rparr>)
      | PyHandlerClass k \<Rightarrow> Inr (self\<lparr>handler := v\<rparr>)
      | PyOtherClass n \<Rightarrow> Inl AssertionError
      | _ \<Rightarrow> Inl TypeError)"

definition handler_delete :: "TCPServer \<Rightarrow> error + TCPServer" where
  "handler_delete self = Inl ProgrammingError"

definition online_get :: "TCPServer \<Rightarrow> bool" where
  "online_get self = online self"

definition online_set :: "pyval \<Rightarrow> TCPServer \<Rightarrow> error + TCPServer" where
  "online_set v self = Inl ProgrammingError"

definition online_delete :: "TCPServer \<Rightarrow> error + TCPServer" where
  "online_delete self = Inl ProgrammingError"

text \<open>
  \<^verbatim>\<open>__init__\<close>: every private attribute starts as None, the three property setters
  run in the source's order, and the instance is offline.
  The \<^verbatim>\<open>assert\<close> statements of the setters are taken as executed (Python not run
  with \<^verbatim>\<open>-O\<close>).
\<close>

definition TCPServer_init :: "pyval \<Rightarrow> pyval \<Rightarrow> pyval \<Rightarrow> error + TCPServer" where
  "TCPServer_init a p r =
     (case address_set a
             \<lparr>address = PyNone, port = PyNone, handler = PyNone,
              server = None, worker = None, online = False\<rparr> of
        Inl e \<Rightarrow> Inl e
      | Inr self1 \<Rightarrow>
         (case port_set p self1 of
            Inl e \<Rightarrow> Inl e
          | Inr self2 \<Rightarrow>
             (case handler_set r self2 of
                Inl e \<Rightarrow> Inl e
              | Inr self3 \<Rightarrow> Inr (self3\<lparr>server := None, worker := None, online := False\<rparr>))))"

text \<open>
  What \<^verbatim>\<open>SocketServer.TCPServer((address, port), handler)\<close> does is the
  environment's: it binds, or it raises a \<^verbatim>\<open>socket.error\<close> with the given
  arguments (an error number and a message, when the operating system refuses the
  bind). Exceptions of other classes are not caught by \<^verbatim>\<open>start\<close> and are left out.
\<close>

datatype bind_result = Bound | SocketErrorRaised "pyval list"

text \<open>
  \<^verbatim>\<open>str(self)\<close> of an instance is Python's default text of an object, which holds
  its memory address; a fixed text stands for it.
\<close>

definition self_str :: "TCPServer \<Rightarrow> string" where
  "self_str self = ''<TCPServer object>''"

text \<open>
  \<^verbatim>\<open>start\<close> and \<^verbatim>\<open>stop\<close> return the returned value or the exception, the
  instance afterwards and the calls made to the host. The format strings are the
  source's, with the arguments the source gives them.
\<close>

definition start :: "bind_result \<Rightarrow> TCPServer \<Rightarrow> (error + pyval) \<times> TCPServer \<times> host_call list" where
  "start bind self =
     (if online self then (Inl ServerOperationError, self, [])
      else
        (case bind of
           Bound \<Rightarrow>
            (let self1 = self\<lparr>server := Some (address self, port self, handler self),
                              worker := Some True, online := True\<rparr>
             in case py_name (handler self) of
                  Inl e \<Rightarrow> (Inl e, self1, [])
                | Inr name \<Rightarrow>
                   (case py_format
                           ''%s | Server successfully started on '%s' address and '%s' port using '%s' requests handler!''
                           [''TCPServer'', py_str (address self), py_str (port self), name] of
                      Inl e \<Rightarrow> (Inl e, self1, [])
                    | Inr msg \<Rightarrow> (Inr (PyBool True), self1, [CallLogMessage msg (Some siInfo)])))
         | SocketErrorRaised ex \<Rightarrow>
            (case ex of
               [error_number, error_message] \<Rightarrow>
                (if py_eq_int error_number 10048 then
                   (case py_format
                           ''%s | Cannot start server, a connection is already opened on port '%s'!''
                           [''TCPServer'', self_str self, py_str (port self)] of
                      Inl e \<Rightarrow> (Inl e, self, [])
                    | Inr msg \<Rightarrow> (Inr PyNone, self, [CallLogMessage msg (Some siWarning)]))
                 else (Inl socket_error, self, []))
             | _ \<Rightarrow> (Inl ValueError, self, []))))"

definition stop :: "TCPServer \<Rightarrow> (error + pyval) \<times> TCPServer \<times> host_call list" where
  "stop self =
     (if \<not> online self then (Inl ServerOperationError, self, [])
      else
        (case server self of
           None \<Rightarrow> (Inl AttributeError, self, [])
         | Some s \<Rightarrow>
            (let self1 = self\<lparr>server := None, worker := None, online := False\<rparr>
             in case py_format ''%s | Server successfully stopped!'' [''TCPServer''] of
                  Inl e \<Rightarrow> (Inl e, self1, [])
                | Inr msg \<Rightarrow> (Inr (PyBool True), self1, [CallLogMessage msg (Some siInfo)]))))"

section \<open>Vocabulary of the statements\<close>

text \<open>The pairs of neighbours of a list, in order.\<close>

definition adjacent :: "'a list \<Rightarrow> ('a \<times> 'a) list" where
  "adjacent xs = zip xs (tl xs)"

text \<open>
  The message \<^verbatim>\<open>"%s | Request return value: '%s'." % (Constants.name, value)\<close>,
  written out.
\<close>

definition return_value_message :: "string \<Rightarrow> string" where
  "return_value_message v =
     ''TCPServer | Request return value: '' @ [CHR 0x27] @ v @ [CHR 0x27] @ ''.''"

section \<open>The terminator look-back of PythonStackDataRequestsHandler.handle\<close>

text \<open>\<open>py_in\<close> is the substring test.\<close>

lemma py_in_iff_substring: "py_in sub s \<longleftrightarrow> (\<exists>a b. s = a @ sub @ b)"
proof (induction s)
  case Nil
  show ?case by (auto simp: py_in_def)
next
  case (Cons c cs)
  show ?case
  proof (cases "take (length sub) (c # cs) = sub")
    case True
    have "c # cs = take (length sub) (c # cs) @ drop (length sub) (c # cs)"
      by (simp only: append_take_drop_id)
    with True have "c # cs = [] @ sub @ drop (length sub) (c # cs)"
      by (simp only: append_Nil)
    then have "\<exists>a b. c # cs = a @ sub @ b" by blast
    moreover from True have "py_in sub (c # cs)" by (simp add: py_in_def)
    ultimately show ?thesis by blast
  next
    case False
    have "py_in sub (c # cs) \<longleftrightarrow> py_in sub cs"
      using False by (simp add: py_in_def Let_def)
    also have "\<dots> \<longleftrightarrow> (\<exists>a b. cs = a @ sub @ b)" by (rule Cons.IH)
    also have "\<dots> \<longleftrightarrow> (\<exists>a b. c # cs = a @ sub @ b)"
    proof
      assume "\<exists>a b. cs = a @ sub @ b"
      then obtain a b where "cs = a @ sub @ b" by blast
      then have "c # cs = (c # a) @ sub @ b" by simp
      then show "\<exists>a b. c # cs = a @ sub @ b" by blast
    next
      assume "\<exists>a b. c # cs = a @ sub @ b"
      then obtain a b where ab: "c # cs = a @ sub @ b" by blast
      show "\<exists>a b. cs = a @ sub @ b"
      proof (cases a)
        case Nil
        with ab have "take (length sub) (c # cs) = sub" by simp
        with False show ?thesis by simp
      next
        case (Cons a0 a')
        with ab have "cs = a' @ sub @ b" by simp
        then show ?thesis by blast
      qed
    qed
    finally show ?thesis .
  qed
qed

declare handle_loop.simps(2) [simp del]

lemma py_getitem_single_before: "py_getitem [x] (- 2) = Inl IndexError"
  by (simp add: py_getitem_def Let_def)

lemma py_getitem_snoc_last: "py_getitem (xs @ [x]) (- 1) = Inr x"
  by (simp add: py_getitem_def Let_def)

lemma py_getitem_snoc_prev:
  assumes ne: "xs \<noteq> []"
  shows "py_getitem (xs @ [x]) (- 2) = Inr (last xs)"
proof -
  from ne have len: "0 < length xs" by simp
  have idx: "nat (- 2 + int (length (xs @ [x]))) = length xs - 1"
    using len by simp
  have "(xs @ [x]) ! (length xs - 1) = xs ! (length xs - 1)"
    using len by (simp add: nth_append)
  also have "\<dots> = last xs"
    using ne by (simp add: last_conv_nth)
  finally have nth: "(xs @ [x]) ! (length xs - 1) = last xs" .
  show ?thesis
    unfolding py_getitem_def Let_def using len nth idx by simp
qed

lemma handle_loop_first_chunk:
  "data \<noteq> [] \<Longrightarrow> \<not> py_in requestEnd data \<Longrightarrow>
   handle_loop [] (data # rest) = Inl IndexError"
  by (simp add: handle_loop.simps(2) py_getitem_single_before)

text \<open>
  C1. A payload followed by the terminator, the terminator split over two reads, should
  leave one blob, the payload, on the requests stack. The code does not: whenever the
  first chunk read is not empty and does not hold the whole terminator, \<^verbatim>\<open>allData\<close>
  has one element when \<^verbatim>\<open>allData[-2]\<close> is read, \<^verbatim>\<open>handle\<close> raises IndexError and
  nothing is pushed.
\<close>

theorem handle_first_chunk_raises_IndexError:
  "data \<noteq> [] \<Longrightarrow> \<not> py_in requestEnd data \<Longrightarrow>
   PythonStackDataRequestsHandler_handle (data # rest) requestsStack
     = (Inl IndexError, requestsStack)"
  by (simp add: PythonStackDataRequestsHandler_handle_def handle_loop_first_chunk)

theorem handle_first_chunk_raises_IndexError_witness:
  "PythonStackDataRequestsHandler_handle
      [''import sys\<newline>print(sys.maxsize)<!'', ''RE>''] [] = (Inl IndexError, [])
   \<and> PythonStackDataRequestsHandler_handle
      [''import sys\<newline>print(sys.maxsize)'', ''<!RE>''] [] = (Inl IndexError, [])"
  using handle_first_chunk_raises_IndexError
          [of "''import sys\<newline>print(sys.maxsize)<!''" "[''RE>'']" "[]"]
        handle_first_chunk_raises_IndexError
          [of "''import sys\<newline>print(sys.maxsize)''" "[''<!RE>'']" "[]"]
  by (simp add: py_in_def requestEnd_def)

lemma handle_loop_PeerClosed_buffer:
  "handle_loop allData connection = Inr (PeerClosed, buf) \<Longrightarrow>
   buf = allData @ takeWhile (\<lambda>d. d \<noteq> []) connection"
proof (induction connection arbitrary: allData)
  case Nil
  then show ?case by simp
next
  case (Cons data rest)
  show ?case
  proof (cases "data = []")
    case True
    with Cons.prems show ?thesis by (simp add: handle_loop.simps(2))
  next
    case ne: False
    show ?thesis
    proof (cases "py_in requestEnd data")
      case True
      with ne Cons.prems show ?thesis by (simp add: handle_loop.simps(2))
    next
      case notin: False
      show ?thesis
      proof (cases "allData = []")
        case True
        with ne notin Cons.prems show ?thesis
          by (simp add: handle_loop_first_chunk)
      next
        case False
        then have g2: "py_getitem (allData @ [data]) (- 2) = Inr (last allData)"
          by (rule py_getitem_snoc_prev)
        have rec: "handle_loop (allData @ [data]) rest = Inr (PeerClosed, buf)"
          using Cons.prems ne notin g2
          by (simp add: handle_loop.simps(2) py_getitem_snoc_last Let_def
                split: if_splits sum.splits)
        from Cons.IH [OF rec] ne show ?thesis by simp
      qed
    qed
  qed
qed

lemma handle_loop_PeerClosed_from_empty:
  assumes "handle_loop [] connection = Inr (PeerClosed, buf)"
  shows "buf = [] \<and> takeWhile (\<lambda>d. d \<noteq> []) connection = []"
proof (cases connection)
  case Nil
  with assms show ?thesis by simp
next
  case (Cons data rest)
  show ?thesis
  proof (cases "data = []")
    case True
    with Cons assms show ?thesis by (simp add: handle_loop.simps(2))
  next
    case ne: False
    show ?thesis
    proof (cases "py_in requestEnd data")
      case True
      with ne Cons assms show ?thesis by (simp add: handle_loop.simps(2))
    next
      case False
      with ne Cons assms show ?thesis by (simp add: handle_loop_first_chunk)
    qed
  qed
qed

text \<open>
  C6. After each chunk the loop looks for the terminator in that chunk and in the
  concatenation of the last two accumulated chunks only. So, from any state
  \<open>allData\<close> of the loop, on a connection where no chunk holds the terminator whole and
  no two neighbouring chunks do (the last accumulated chunk counted as the neighbour of
  the first one read), neither terminator \<^verbatim>\<open>break\<close> is taken: the loop reads on to
  the peer's close with every chunk accumulated unchanged, or, when \<open>allData\<close> is
  empty and a first chunk arrives, raises the IndexError of \<^verbatim>\<open>allData[-2]\<close>.
\<close>

theorem handle_loop_two_chunk_lookback:
  assumes single: "\<forall>d \<in> set connection. \<not> py_in requestEnd d"
    and pairs:
      "\<forall>(a, b) \<in> set (adjacent ((if allData = [] then [] else [last allData]) @ connection)).
         \<not> py_in requestEnd (a @ b)"
  shows "handle_loop allData connection =
           (if allData = [] \<and> connection \<noteq> [] \<and> hd connection \<noteq> [] then Inl IndexError
            else Inr (PeerClosed, allData @ takeWhile (\<lambda>d. d \<noteq> []) connection))"
  using single pairs
proof (induction connection arbitrary: allData)
  case Nil
  then show ?case by simp
next
  case (Cons data rest)
  from Cons.prems(1) have notin: "\<not> py_in requestEnd data" by simp
  show ?case
  proof (cases "data = []")
    case True
    then show ?thesis by (simp add: handle_loop.simps(2))
  next
    case ne: False
    show ?thesis
    proof (cases "allData = []")
      case True
      with ne notin show ?thesis by (simp add: handle_loop_first_chunk)
    next
      case False
      then have g2: "py_getitem (allData @ [data]) (- 2) = Inr (last allData)"
        by (rule py_getitem_snoc_prev)
      from False Cons.prems(2) have seam: "\<not> py_in requestEnd (last allData @ data)"
        by (simp add: adjacent_def)
      have step: "handle_loop allData (data # rest) = handle_loop (allData @ [data]) rest"
        using ne notin g2 seam
        by (simp add: handle_loop.simps(2) py_getitem_snoc_last Let_def)
      have s': "\<forall>d \<in> set rest. \<not> py_in requestEnd d"
        using Cons.prems(1) by simp
      have p': "\<forall>(a, b) \<in> set (adjacent
                    ((if allData @ [data] = [] then [] else [last (allData @ [data])]) @ rest)).
                  \<not> py_in requestEnd (a @ b)"
        using False Cons.prems(2) by (simp add: adjacent_def)
      from Cons.IH [OF s' p'] step False ne show ?thesis by simp
    qed
  qed
qed

theorem handle_loop_two_chunk_lookback_witness:
  "handle_loop [] [''<!'', ''R'', ''E>''] = Inl IndexError
   \<and> handle_loop [''print 1''] [''<!'', ''R'', ''E>'']
       = Inr (PeerClosed, [''print 1'', ''<!'', ''R'', ''E>''])"
  using handle_loop_two_chunk_lookback [of "[''<!'', ''R'', ''E>'']" "[]"]
        handle_loop_two_chunk_lookback [of "[''<!'', ''R'', ''E>'']" "[''print 1'']"]
  by (simp add: adjacent_def py_in_def requestEnd_def)

section \<open>The messages of the module\<close>

lemma py_format_return_value:
  "py_format ''%s | Request return value: '%s'.'' [Constants_name, v]
     = Inr (return_value_message v)"
  by (simp add: return_value_message_def Constants_name_def)

lemma py_format_port_in_use:
  "py_format ''%s | Cannot start server, a connection is already opened on port '%s'!''
     [a, b, c] = Inl TypeError"
  by simp

lemma py_format_started:
  "py_format
     ''%s | Server successfully started on '%s' address and '%s' port using '%s' requests handler!''
     [a, b, c, d]
    = Inr (a @ '' | Server successfully started on '' @ [CHR 0x27] @ b @ [CHR 0x27]
           @ '' address and '' @ [CHR 0x27] @ c @ [CHR 0x27]
           @ '' port using '' @ [CHR 0x27] @ d @ [CHR 0x27] @ '' requests handler!'')"
  by simp

lemma py_format_stopped:
  "py_format ''%s | Server successfully stopped!'' [a]
     = Inr (a @ '' | Server successfully stopped!'')"
  by simp

section \<open>Draining the requests stack\<close>

lemma PythonStack_processData_step:
  "PythonStackDataRequestsHandler_processData H (x # q) h calls =
     PythonStackDataRequestsHandler_processData H q
       (snd (Application_ExecuteScriptCode H x ''Python'' h))
       (calls @ [CallExecuteScriptCode x ''Python'',
                 CallLogMessage
                   (return_value_message (fst (Application_ExecuteScriptCode H x ''Python'' h)))
                   (Some siVerbose)])"
  by (simp only: PythonStackDataRequestsHandler_processData.simps Let_def
        py_format_return_value sum.case split: prod.splits)
     simp

lemma handle_loop_chunks_then_close:
  assumes ne: "connection \<noteq> []"
    and chunks: "\<forall>d \<in> set connection. d \<noteq> [] \<and> \<not> py_in requestEnd d"
  shows "handle_loop [] connection = Inl IndexError"
proof (cases connection)
  case Nil
  with ne show ?thesis by simp
next
  case (Cons data rest)
  with chunks have "data \<noteq> []" and "\<not> py_in requestEnd data" by simp_all
  then show ?thesis unfolding Cons by (rule handle_loop_first_chunk)
qed

text \<open>
  C10. When the peer closes before the terminator is found, \<^verbatim>\<open>handle\<close> should push
  the chunks accumulated so far, as one blob. The code does so only when nothing was
  received: a client that connects and closes without sending leaves the empty blob on
  the requests stack, and \<^verbatim>\<open>processData\<close> then executes it as Python code. When
  chunks were received, none of them holding the terminator, \<^verbatim>\<open>handle\<close> has raised
  the IndexError of \<^verbatim>\<open>allData[-2]\<close> at the first of them, before the peer's close is
  read, and nothing is pushed.
\<close>

theorem handle_chunks_then_close_raises_IndexError:
  "(connection \<noteq> [] \<and> (\<forall>d \<in> set connection. d \<noteq> [] \<and> \<not> py_in requestEnd d) \<longrightarrow>
      PythonStackDataRequestsHandler_handle connection requestsStack
        = (Inl IndexError, requestsStack))
   \<and> PythonStackDataRequestsHandler_handle [] requestsStack
        = (Inr (PyBool True), requestsStack @ [[]])
   \<and> PythonStackDataRequestsHandler_processData H [[]] h calls
        = (Inr (PyBool True), [], snd (Application_ExecuteScriptCode H [] ''Python'' h),
           calls @ [CallExecuteScriptCode [] ''Python'',
                    CallLogMessage
                      (return_value_message
                         (fst (Application_ExecuteScriptCode H [] ''Python'' h)))
                      (Some siVerbose)])"
proof -
  have a: "connection \<noteq> [] \<and> (\<forall>d \<in> set connection. d \<noteq> [] \<and> \<not> py_in requestEnd d) \<longrightarrow>
      PythonStackDataRequestsHandler_handle connection requestsStack
        = (Inl IndexError, requestsStack)"
  proof
    assume h: "connection \<noteq> [] \<and> (\<forall>d \<in> set connection. d \<noteq> [] \<and> \<not> py_in requestEnd d)"
    then have "handle_loop [] connection = Inl IndexError"
      by (simp add: handle_loop_chunks_then_close)
    then show "PythonStackDataRequestsHandler_handle connection requestsStack
        = (Inl IndexError, requestsStack)"
      by (simp add: PythonStackDataRequestsHandler_handle_def)
  qed
  have b: "PythonStackDataRequestsHandler_handle [] requestsStack
        = (Inr (PyBool True), requestsStack @ [[]])"
    by (simp add: PythonStackDataRequestsHandler_handle_def)
  have c: "PythonStackDataRequestsHandler_processData H [[]] h calls
        = (Inr (PyBool True), [], snd (Application_ExecuteScriptCode H [] ''Python'' h),
           calls @ [CallExecuteScriptCode [] ''Python'',
                    CallLogMessage
                      (return_value_message
                         (fst (Application_ExecuteScriptCode H [] ''Python'' h)))
                      (Some siVerbose)])"
    by (simp only: PythonStack_processData_step
          PythonStackDataRequestsHandler_processData.simps(1))
  from a b c show ?thesis by blast
qed

theorem handle_chunks_then_close_raises_IndexError_witness:
  "PythonStackDataRequestsHandler_handle [''print 1''] [''queued'']
       = (Inl IndexError, [''queued''])
   \<and> PythonStackDataRequestsHandler_handle [''import sys'', ''print 1''] [''queued'']
       = (Inl IndexError, [''queued''])
   \<and> PythonStackDataRequestsHandler_handle [] [''queued'']
       = (Inr (PyBool True), [''queued'', []])
   \<and> PythonStackDataRequestsHandler_processData (listed_files_host []) [[]] () []
       = (Inr (PyBool True), [], (),
          [CallExecuteScriptCode [] ''Python'',
           CallLogMessage (return_value_message ''None'') (Some siVerbose)])"
  using handle_chunks_then_close_raises_IndexError
          [of "[''print 1'']" "[''queued'']" "listed_files_host []" "()" "[]"]
        handle_chunks_then_close_raises_IndexError
          [of "[''import sys'', ''print 1'']" "[''queued'']" "listed_files_host []" "()" "[]"]
  by (simp add: py_in_def requestEnd_def listed_files_host_def)

section \<open>The life cycle of a TCPServer\<close>

lemma start_online:
  "online self \<Longrightarrow> start bind self = (Inl ServerOperationError, self, [])"
  by (simp add: start_def)

lemma start_offline_Bound:
  "\<not> online self \<Longrightarrow> start Bound self =
     (let self1 = self\<lparr>server := Some (address self, port self, handler self),
                      worker := Some True, online := True\<rparr>
      in case py_name (handler self) of
           Inl e \<Rightarrow> (Inl AttributeError, self1, [])
         | Inr name \<Rightarrow>
             (Inr (PyBool True), self1,
              [CallLogMessage
                 (''TCPServer | Server successfully started on '' @ [CHR 0x27]
                   @ py_str (address self) @ [CHR 0x27] @ '' address and '' @ [CHR 0x27]
                   @ py_str (port self) @ [CHR 0x27] @ '' port using '' @ [CHR 0x27] @ name
                   @ [CHR 0x27] @ '' requests handler!'')
                 (Some siInfo)]))"
  unfolding start_def Let_def
  by (simp only: py_format_started if_False bind_result.case split: sum.splits)
     (auto simp: py_name_def split: pyval.splits)

lemma start_offline_SocketError:
  "\<not> online self \<Longrightarrow> start (SocketErrorRaised ex) self =
     (case ex of
        [error_number, error_message] \<Rightarrow>
          (if py_eq_int error_number 10048 then (Inl TypeError, self, [])
           else (Inl socket_error, self, []))
      | _ \<Rightarrow> (Inl ValueError, self, []))"
  unfolding start_def
  by (simp only: py_format_port_in_use if_False bind_result.case sum.case split: list.splits)

lemma stop_online:
  "online self \<Longrightarrow> stop self =
     (case server self of
        None \<Rightarrow> (Inl AttributeError, self, [])
      | Some s \<Rightarrow>
          (Inr (PyBool True), self\<lparr>server := None, worker := None, online := False\<rparr>,
           [CallLogMessage ''TCPServer | Server successfully stopped!'' (Some siInfo)]))"
  unfolding stop_def Let_def
  by (simp only: py_format_stopped) (simp split: option.splits)

text \<open>
  C3. \<^verbatim>\<open>start\<close> raises ServerOperationError exactly when the server is online, and
  then changes nothing; \<^verbatim>\<open>stop\<close> raises ServerOperationError exactly when the server
  is offline, and then changes nothing. Whenever \<^verbatim>\<open>start\<close> returns, it returns True
  and the server is online; whenever \<^verbatim>\<open>stop\<close> returns, it returns True and the server
  is offline.
\<close>

theorem start_stop_ServerOperationError_iff:
  "(fst (start bind self) = Inl ServerOperationError \<longleftrightarrow> online self)
   \<and> (online self \<longrightarrow> start bind self = (Inl ServerOperationError, self, []))
   \<and> (fst (stop self) = Inl ServerOperationError \<longleftrightarrow> \<not> online self)
   \<and> (\<not> online self \<longrightarrow> stop self = (Inl ServerOperationError, self, []))
   \<and> (fst (start bind self) = Inr v \<longrightarrow>
         v = PyBool True \<and> online (fst (snd (start bind self))))
   \<and> (fst (stop self) = Inr v \<longrightarrow>
         v = PyBool True \<and> \<not> online (fst (snd (stop self))))"
proof (cases "online self")
  case True
  then show ?thesis
    by (auto simp: start_online stop_online split: option.splits)
next
  case False
  have s1: "fst (start bind self) \<noteq> Inl ServerOperationError"
    using False
    by (cases bind)
       (auto simp: start_offline_Bound start_offline_SocketError Let_def
             split: sum.splits list.splits)
  have s2: "fst (start bind self) = Inr v \<longrightarrow>
              v = PyBool True \<and> online (fst (snd (start bind self)))"
    using False
    by (cases bind)
       (auto simp: start_offline_Bound start_offline_SocketError Let_def
             split: sum.splits list.splits)
  from False s1 s2 show ?thesis
    by (simp add: stop_def)
qed

theorem start_stop_ServerOperationError_iff_witness:
  "fst (start Bound
          \<lparr>address = PyStr ''127.0.0.1'', port = PyInt 12288,
           handler = PyHandlerClass DefaultStackDataRequestsHandler,
           server = None, worker = None, online = False\<rparr>) = Inr (PyBool True)
   \<and> online (fst (snd (start Bound
          \<lparr>address = PyStr ''127.0.0.1'', port = PyInt 12288,
           handler = PyHandlerClass DefaultStackDataRequestsHandler,
           server = None, worker = None, online = False\<rparr>)))
   \<and> stop \<lparr>address = PyStr ''127.0.0.1'', port = PyInt 12288,
           handler = PyHandlerClass DefaultStackDataRequestsHandler,
           server = None, worker = None, online = False\<rparr>
       = (Inl ServerOperationError,
          \<lparr>address = PyStr ''127.0.0.1'', port = PyInt 12288,
           handler = PyHandlerClass DefaultStackDataRequestsHandler,
           server = None, worker = None, online = False\<rparr>, [])
   \<and> start Bound
         \<lparr>address = PyStr ''127.0.0.1'', port = PyInt 12288,
          handler = PyHandlerClass DefaultStackDataRequestsHandler,
          server = Some (PyStr ''127.0.0.1'', PyInt 12288,
                         PyHandlerClass DefaultStackDataRequestsHandler),
          worker = Some True, online = True\<rparr>
       = (Inl ServerOperationError,
          \<lparr>address = PyStr ''127.0.0.1'', port = PyInt 12288,
           handler = PyHandlerClass DefaultStackDataRequestsHandler,
           server = Some (PyStr ''127.0.0.1'', PyInt 12288,
                          PyHandlerClass DefaultStackDataRequestsHandler),
           worker = Some True, online = True\<rparr>, [])
   \<and> fst (stop
         \<lparr>address = PyStr ''127.0.0.1'', port = PyInt 12288,
          handler = PyHandlerClass DefaultStackDataRequestsHandler,
          server = Some (PyStr ''127.0.0.1'', PyInt 12288,
                         PyHandlerClass DefaultStackDataRequestsHandler),
          worker = Some True, online = True\<rparr>) = Inr (PyBool True)
   \<and> \<not> online (fst (snd (stop
         \<lparr>address = PyStr ''127.0.0.1'', port = PyInt 12288,
          handler = PyHandlerClass DefaultStackDataRequestsHandler,
          server = Some (PyStr ''127.0.0.1'', PyInt 12288,
                         PyHandlerClass DefaultStackDataRequestsHandler),
          worker = Some True, online = True\<rparr>)))"
  using start_stop_ServerOperationError_iff
          [of Bound
              "\<lparr>address = PyStr ''127.0.0.1'', port = PyInt 12288,
                handler = PyHandlerClass DefaultStackDataRequestsHandler,
                server = None, worker = None, online = False\<rparr>"
              "PyBool True"]
        start_stop_ServerOperationError_iff
          [of Bound
              "\<lparr>address = PyStr ''127.0.0.1'', port = PyInt 12288,
                handler = PyHandlerClass DefaultStackDataRequestsHandler,
                server = Some (PyStr ''127.0.0.1'', PyInt 12288,
                               PyHandlerClass DefaultStackDataRequestsHandler),
                worker = Some True, online = True\<rparr>"
              "PyBool True"]
  by (simp add: start_offline_Bound stop_online py_name_def Let_def)

text \<open>
  C4. A bind refused because the port is in use should log a warning and raise
  nothing. The code does not: for an offline server and a \<^verbatim>\<open>socket.error\<close> whose
  number is 10048, the warning's format has two \<^verbatim>\<open>%s\<close> and is given three
  arguments, so building the message raises TypeError; nothing is logged and the error
  reaches the caller. The server stays offline. A \<^verbatim>\<open>socket.error\<close> with any other
  number is raised again as \<^verbatim>\<open>socket.error\<close>.
\<close>

theorem start_port_in_use_raises_TypeError:
  "\<not> online self \<Longrightarrow>
   start (SocketErrorRaised [PyInt 10048, error_message]) self = (Inl TypeError, self, [])
   \<and> (\<not> py_eq_int error_number 10048 \<longrightarrow>
        start (SocketErrorRaised [error_number, error_message]) self
          = (Inl socket_error, self, []))"
  by (simp add: start_offline_SocketError py_eq_int_def)

theorem start_port_in_use_raises_TypeError_witness:
  "\<not> online \<lparr>address = PyStr ''127.0.0.1'', port = PyInt 12288,
              handler = PyHandlerClass DefaultStackDataRequestsHandler,
              server = None, worker = None, online = False\<rparr>
   \<and> start (SocketErrorRaised [PyInt 10048, PyStr ''Address already in use''])
        \<lparr>address = PyStr ''127.0.0.1'', port = PyInt 12288,
         handler = PyHandlerClass DefaultStackDataRequestsHandler,
         server = None, worker = None, online = False\<rparr>
      = (Inl TypeError,
         \<lparr>address = PyStr ''127.0.0.1'', port = PyInt 12288,
          handler = PyHandlerClass DefaultStackDataRequestsHandler,
          server = None, worker = None, online = False\<rparr>, [])
   \<and> \<not> py_eq_int (PyInt 98) 10048
   \<and> start (SocketErrorRaised [PyInt 98, PyStr ''Address already in use''])
        \<lparr>address = PyStr ''127.0.0.1'', port = PyInt 12288,
         handler = PyHandlerClass DefaultStackDataRequestsHandler,
         server = None, worker = None, online = False\<rparr>
      = (Inl socket_error,
         \<lparr>address = PyStr ''127.0.0.1'', port = PyInt 12288,
          handler = PyHandlerClass DefaultStackDataRequestsHandler,
          server = None, worker = None, online = False\<rparr>, [])"
  using start_port_in_use_raises_TypeError
          [of "\<lparr>address = PyStr ''127.0.0.1'', port = PyInt 12288,
                handler = PyHandlerClass DefaultStackDataRequestsHandler,
                server = None, worker = None, online = False\<rparr>"
              "PyStr ''Address already in use''" "PyInt 98"]
  by (simp add: py_eq_int_def)

section \<open>Construction and the properties of a TCPServer\<close>

lemma TCPServer_init_ok:
  "TCPServer_init a p r = Inr self \<Longrightarrow>
   self = \<lparr>address = a, port = p, handler = r, server = None, worker = None, online = False\<rparr>"
  by (auto simp: TCPServer_init_def address_set_def port_set_def handler_set_def
           split: if_splits sum.splits pyval.splits)

lemma start_keeps_address_port:
  "address (fst (snd (start bind self))) = address self
   \<and> port (fst (snd (start bind self))) = port self"
proof (cases "online self")
  case True
  then show ?thesis by (simp add: start_online)
next
  case False
  then show ?thesis
    by (cases bind)
       (auto simp: start_offline_Bound start_offline_SocketError Let_def
             split: sum.splits list.splits)
qed

lemma stop_keeps_address_port:
  "address (fst (snd (stop self))) = address self
   \<and> port (fst (snd (stop self))) = port self"
proof (cases "online self")
  case True
  then show ?thesis by (simp add: stop_online split: option.splits)
next
  case False
  then show ?thesis by (simp add: stop_def)
qed

text \<open>
  C2, as stated: a port outside 0-65535 fails at construction. It does not: the port
  70000 is accepted and stored.
\<close>

theorem TCPServer_init_port_70000_accepted:
  "TCPServer_init (PyStr ''127.0.0.1'') (PyInt 70000) (PyHandlerClass EchoRequestsHandler)
     = Inr \<lparr>address = PyStr ''127.0.0.1'', port = PyInt 70000,
            handler = PyHandlerClass EchoRequestsHandler,
            server = None, worker = None, online = False\<rparr>
   \<and> \<not> (0 \<le> (70000::int) \<and> (70000::int) \<le> 65535)"
  by (simp add: TCPServer_init_def address_set_def port_set_def handler_set_def)

text \<open>
  C2, amended. Construction checks the type of the port only. A port that is neither
  None nor of type \<^verbatim>\<open>int\<close> fails at construction with an AssertionError; every
  \<^verbatim>\<open>int\<close>, whatever its value, is accepted together with a string address and a
  handler class; and the port of every constructed server is the value given, None or
  an \<^verbatim>\<open>int\<close>, with no range guaranteed.
\<close>

theorem TCPServer_init_checks_port_type_only:
  "(p \<noteq> PyNone \<and> (\<forall>i. p \<noteq> PyInt i) \<longrightarrow> TCPServer_init a p r = Inl AssertionError)
   \<and> TCPServer_init (PyStr s) (PyInt i) (PyHandlerClass k)
       = Inr \<lparr>address = PyStr s, port = PyInt i, handler = PyHandlerClass k,
              server = None, worker = None, online = False\<rparr>
   \<and> (TCPServer_init a p r = Inr self \<longrightarrow>
        port_get self = p \<and> (p = PyNone \<or> (\<exists>i. p = PyInt i)))"
proof -
  have bad: "p \<noteq> PyNone \<and> (\<forall>i. p \<noteq> PyInt i) \<longrightarrow> TCPServer_init a p r = Inl AssertionError"
    by (cases p)
       (auto simp: TCPServer_init_def address_set_def port_set_def split: sum.splits)
  have ok: "TCPServer_init (PyStr s) (PyInt i) (PyHandlerClass k)
       = Inr \<lparr>address = PyStr s, port = PyInt i, handler = PyHandlerClass k,
              server = None, worker = None, online = False\<rparr>"
    by (simp add: TCPServer_init_def address_set_def port_set_def handler_set_def)
  have kept: "TCPServer_init a p r = Inr self \<longrightarrow>
        port_get self = p \<and> (p = PyNone \<or> (\<exists>i. p = PyInt i))"
  proof
    assume c: "TCPServer_init a p r = Inr self"
    from TCPServer_init_ok [OF c] have "port_get self = p"
      by (simp add: port_get_def)
    moreover from bad c have "p = PyNone \<or> (\<exists>i. p = PyInt i)"
      by auto
    ultimately show "port_get self = p \<and> (p = PyNone \<or> (\<exists>i. p = PyInt i))" ..
  qed
  from bad ok kept show ?thesis by blast
qed

theorem TCPServer_init_checks_port_type_only_witness:
  "TCPServer_init (PyStr ''127.0.0.1'') (PyStr ''12288'') (PyHandlerClass EchoRequestsHandler)
     = Inl AssertionError
   \<and> TCPServer_init (PyStr ''127.0.0.1'') (PyInt (- 1)) (PyHandlerClass EchoRequestsHandler)
     = Inr \<lparr>address = PyStr ''127.0.0.1'', port = PyInt (- 1),
            handler = PyHandlerClass EchoRequestsHandler,
            server = None, worker = None, online = False\<rparr>
   \<and> port_get \<lparr>address = PyStr ''127.0.0.1'', port = PyInt (- 1),
            handler = PyHandlerClass EchoRequestsHandler,
            server = None, worker = None, online = False\<rparr> = PyInt (- 1)"
  using TCPServer_init_checks_port_type_only
          [of "PyStr ''12288''" "PyStr ''127.0.0.1''" "PyHandlerClass EchoRequestsHandler"
              "''127.0.0.1''" "- 1" EchoRequestsHandler
              "\<lparr>address = PyStr ''127.0.0.1'', port = PyInt (- 1),
                handler = PyHandlerClass EchoRequestsHandler,
                server = None, worker = None, online = False\<rparr>"]
        TCPServer_init_checks_port_type_only
          [of "PyInt (- 1)" "PyStr ''127.0.0.1''" "PyHandlerClass EchoRequestsHandler"
              "''127.0.0.1''" "- 1" EchoRequestsHandler
              "\<lparr>address = PyStr ''127.0.0.1'', port = PyInt (- 1),
                handler = PyHandlerClass EchoRequestsHandler,
                server = None, worker = None, online = False\<rparr>"]
  by (simp add: port_get_def)

text \<open>
  C7, as stated: the address and the port of an instance cannot be changed after
  construction. They can: on the instance constructed with port 12288, assigning 9999
  to \<^verbatim>\<open>port\<close> succeeds, and the accessor then returns 9999.
\<close>

theorem port_set_after_init_accepted:
  "TCPServer_init (PyStr ''127.0.0.1'') (PyInt 12288) (PyHandlerClass EchoRequestsHandler)
     = Inr \<lparr>address = PyStr ''127.0.0.1'', port = PyInt 12288,
            handler = PyHandlerClass EchoRequestsHandler,
            server = None, worker = None, online = False\<rparr>
   \<and> port_set (PyInt 9999)
        \<lparr>address = PyStr ''127.0.0.1'', port = PyInt 12288,
         handler = PyHandlerClass EchoRequestsHandler,
         server = None, worker = None, online = False\<rparr>
     = Inr \<lparr>address = PyStr ''127.0.0.1'', port = PyInt 9999,
            handler = PyHandlerClass EchoRequestsHandler,
            server = None, worker = None, online = False\<rparr>
   \<and> port_get \<lparr>address = PyStr ''127.0.0.1'', port = PyInt 9999,
            handler = PyHandlerClass EchoRequestsHandler,
            server = None, worker = None, online = False\<rparr> = PyInt 9999
   \<and> PyInt 9999 \<noteq> PyInt 12288"
  by (simp add: TCPServer_init_def address_set_def port_set_def handler_set_def port_get_def)

text \<open>
  C7, amended. The accessors of a constructed instance return the address and the port
  given at construction, and \<^verbatim>\<open>start\<close> and \<^verbatim>\<open>stop\<close> leave both as they are. They
  are not immutable: on any instance, assigning None, a \<^verbatim>\<open>str\<close> or a
  \<^verbatim>\<open>unicode\<close> to \<^verbatim>\<open>address\<close>, or None or an \<^verbatim>\<open>int\<close> to \<^verbatim>\<open>port\<close>, succeeds
  and the accessor returns the new value. Only a value of another type (AssertionError)
  and deletion (ProgrammingError) are rejected, and then the instance is unchanged.
\<close>

theorem address_port_settable:
  "(TCPServer_init a p r = Inr self \<longrightarrow> address_get self = a \<and> port_get self = p)
   \<and> address_get (fst (snd (start bind self))) = address_get self
   \<and> port_get (fst (snd (start bind self))) = port_get self
   \<and> address_get (fst (snd (stop self))) = address_get self
   \<and> port_get (fst (snd (stop self))) = port_get self
   \<and> (v = PyNone \<or> (\<exists>s. v = PyStr s) \<or> (\<exists>s. v = PyUnicode s) \<longrightarrow>
        address_set v self = Inr (self\<lparr>address := v\<rparr>)
        \<and> address_get (self\<lparr>address := v\<rparr>) = v)
   \<and> (\<not> (v = PyNone \<or> (\<exists>s. v = PyStr s) \<or> (\<exists>s. v = PyUnicode s)) \<longrightarrow>
        address_set v self = Inl AssertionError)
   \<and> (w = PyNone \<or> (\<exists>i. w = PyInt i) \<longrightarrow>
        port_set w self = Inr (self\<lparr>port := w\<rparr>) \<and> port_get (self\<lparr>port := w\<rparr>) = w)
   \<and> (\<not> (w = PyNone \<or> (\<exists>i. w = PyInt i)) \<longrightarrow> port_set w self = Inl AssertionError)
   \<and> address_delete self = Inl ProgrammingError
   \<and> port_delete self = Inl ProgrammingError"
proof -
  have init: "TCPServer_init a p r = Inr self \<longrightarrow> address_get self = a \<and> port_get self = p"
    by (auto dest: TCPServer_init_ok simp: address_get_def port_get_def)
  have a1: "v = PyNone \<or> (\<exists>s. v = PyStr s) \<or> (\<exists>s. v = PyUnicode s) \<longrightarrow>
        address_set v self = Inr (self\<lparr>address := v\<rparr>)
        \<and> address_get (self\<lparr>address := v\<rparr>) = v"
    by (auto simp: address_set_def address_get_def)
  have a2: "\<not> (v = PyNone \<or> (\<exists>s. v = PyStr s) \<or> (\<exists>s. v = PyUnicode s)) \<longrightarrow>
        address_set v self = Inl AssertionError"
    by (cases v) (auto simp: address_set_def)
  have p1: "w = PyNone \<or> (\<exists>i. w = PyInt i) \<longrightarrow>
        port_set w self = Inr (self\<lparr>port := w\<rparr>) \<and> port_get (self\<lparr>port := w\<rparr>) = w"
    by (auto simp: port_set_def port_get_def)
  have p2: "\<not> (w = PyNone \<or> (\<exists>i. w = PyInt i)) \<longrightarrow> port_set w self = Inl AssertionError"
    by (cases w) (auto simp: port_set_def)
  from init a1 a2 p1 p2 start_keeps_address_port [of bind self] stop_keeps_address_port [of self]
  show ?thesis
    by (simp add: address_get_def port_get_def address_delete_def port_delete_def)
qed

theorem address_port_settable_witness:
  "TCPServer_init (PyStr ''127.0.0.1'') (PyInt 12288) (PyHandlerClass EchoRequestsHandler)
     = Inr \<lparr>address = PyStr ''127.0.0.1'', port = PyInt 12288,
            handler = PyHandlerClass EchoRequestsHandler,
            server = None, worker = None, online = False\<rparr>
   \<and> address_get \<lparr>address = PyStr ''127.0.0.1'', port = PyInt 12288,
            handler = PyHandlerClass EchoRequestsHandler,
            server = None, worker = None, online = False\<rparr> = PyStr ''127.0.0.1''
   \<and> address_set (PyStr ''0.0.0.0'')
        \<lparr>address = PyStr ''127.0.0.1'', port = PyInt 12288,
         handler = PyHandlerClass EchoRequestsHandler,
         server = None, worker = None, online = False\<rparr>
     = Inr \<lparr>address = PyStr ''0.0.0.0'', port = PyInt 12288,
            handler = PyHandlerClass EchoRequestsHandler,
            server = None, worker = None, online = False\<rparr>
   \<and> port_set (PyInt 9999)
        \<lparr>address = PyStr ''127.0.0.1'', port = PyInt 12288,
         handler = PyHandlerClass EchoRequestsHandler,
         server = None, worker = None, online = False\<rparr>
     = Inr \<lparr>address = PyStr ''127.0.0.1'', port = PyInt 9999,
            handler = PyHandlerClass EchoRequestsHandler,
            server = None, worker = None, online = False\<rparr>"
  using address_port_settable
          [of "PyStr ''127.0.0.1''" "PyInt 12288" "PyHandlerClass EchoRequestsHandler"
              "\<lparr>address = PyStr ''127.0.0.1'', port = PyInt 12288,
                handler = PyHandlerClass EchoRequestsHandler,
                server = None, worker = None, online = False\<rparr>"
              Bound "PyStr ''0.0.0.0''" "PyInt 9999"]
  by (simp add: TCPServer_init_def address_set_def port_set_def handler_set_def
        address_get_def)

section \<open>The dispatch of DefaultStackDataRequestsHandler.processData\<close>

text \<open>
  What a match of \<open>re_match_language\<close> says of the data: white space, the language,
  white space, a bar, then the code, which runs to the end of the line.
\<close>

lemma re_match_language_groups:
  assumes m: "re_match_language language data = Some (lang, code)"
  shows "lang = language
    \<and> (\<exists>ws1 ws2 rest. data = ws1 @ language @ ws2 @ CHR ''|'' # code @ rest
          \<and> (\<forall>c \<in> set (ws1 @ ws2). is_space c)
          \<and> CHR 0x0A \<notin> set code
          \<and> (rest = [] \<or> hd rest = CHR 0x0A))"
proof -
  define s1 where "s1 = dropWhile is_space data"
  define s2 where "s2 = dropWhile is_space (drop (length language) s1)"
  have pre: "take (length language) s1 = language"
  proof (rule ccontr)
    assume "take (length language) s1 \<noteq> language"
    with m show False by (simp add: re_match_language_def s1_def)
  qed
  from m pre have c2: "(case s2 of [] \<Rightarrow> None
      | c # s3 \<Rightarrow> if c = CHR ''|''
                  then Some (language, takeWhile (\<lambda>c. c \<noteq> CHR 0x0A) s3) else None)
      = Some (lang, code)"
    by (simp add: re_match_language_def s1_def s2_def)
  then obtain s3 where s2: "s2 = CHR ''|'' # s3"
    and lang: "lang = language" and code: "code = takeWhile (\<lambda>c. c \<noteq> CHR 0x0A) s3"
    by (cases s2) (auto split: if_splits)
  define ws1 where "ws1 = takeWhile is_space data"
  define ws2 where "ws2 = takeWhile is_space (drop (length language) s1)"
  define rest where "rest = dropWhile (\<lambda>c. c \<noteq> CHR 0x0A) s3"
  have d1: "data = ws1 @ s1" by (simp add: ws1_def s1_def)
  have "s1 = take (length language) s1 @ drop (length language) s1"
    by (simp only: append_take_drop_id)
  with pre have d2: "s1 = language @ drop (length language) s1" by simp
  have d3: "drop (length language) s1 = ws2 @ s2" by (simp add: ws2_def s2_def)
  have d4: "s3 = code @ rest" by (simp add: code rest_def)
  have "data = ws1 @ language @ drop (length language) s1"
    using d1 d2 by simp
  also have "\<dots> = ws1 @ language @ ws2 @ CHR ''|'' # code @ rest"
    by (simp only: d3 s2) (simp add: d4)
  finally have dec: "data = ws1 @ language @ ws2 @ CHR ''|'' # code @ rest" .
  have sp: "\<forall>c \<in> set (ws1 @ ws2). is_space c"
    by (auto simp: ws1_def ws2_def dest: set_takeWhileD)
  have nl: "CHR 0x0A \<notin> set code"
    by (auto simp: code dest: set_takeWhileD)
  have r: "rest = [] \<or> hd rest = CHR 0x0A"
    unfolding rest_def using hd_dropWhile [of "\<lambda>c. c \<noteq> CHR 0x0A" s3] by auto
  from lang dec sp nl r show ?thesis by blast
qed

lemma py_os_path_exists_NUL:
  "CHR 0x00 \<in> set path \<Longrightarrow> py_os_path_exists H h path = Inl TypeError"
  by (simp add: py_os_path_exists_def)

lemma py_os_path_exists_plain:
  "CHR 0x00 \<notin> set path \<Longrightarrow> py_os_path_exists H h path = Inr (os_path_exists H h path)"
  by (simp add: py_os_path_exists_def)

lemma re_match_language_prefix:
  assumes m: "re_match_language language data = Some r"
  shows "take (length language) (dropWhile is_space data) = language
    \<and> (\<exists>s3. dropWhile is_space (drop (length language) (dropWhile is_space data))
               = CHR ''|'' # s3)"
proof -
  define s1 where "s1 = dropWhile is_space data"
  define s2 where "s2 = dropWhile is_space (drop (length language) s1)"
  have pre: "take (length language) s1 = language"
  proof (rule ccontr)
    assume "take (length language) s1 \<noteq> language"
    with m show False by (simp add: re_match_language_def s1_def)
  qed
  from m pre have "(case s2 of [] \<Rightarrow> None
      | c # s3 \<Rightarrow> if c = CHR ''|''
                  then Some (language, takeWhile (\<lambda>c. c \<noteq> CHR 0x0A) s3) else None)
      = Some r"
    by (simp add: re_match_language_def s1_def s2_def)
  then have "\<exists>s3. s2 = CHR ''|'' # s3"
    by (cases s2) (auto split: if_splits)
  with pre show ?thesis by (simp add: s1_def s2_def)
qed

lemma re_match_language_not_shorter:
  assumes m1: "re_match_language l1 data = Some r1"
    and m2: "re_match_language l2 data = Some r2"
    and c2: "\<forall>c \<in> set l2. \<not> is_space c \<and> c \<noteq> CHR ''|''"
  shows "\<not> length l1 < length l2"
proof
  assume less: "length l1 < length l2"
  define s1 where "s1 = dropWhile is_space data"
  from re_match_language_prefix [OF m1] obtain s3
    where bar: "dropWhile is_space (drop (length l1) s1) = CHR ''|'' # s3"
    by (auto simp: s1_def)
  from re_match_language_prefix [OF m2] have p2: "take (length l2) s1 = l2"
    by (simp add: s1_def)
  have "length (take (length l2) s1) = length l2" by (simp only: p2)
  then have len: "length l2 \<le> length s1" by simp
  with less have lt: "length l1 < length s1" by simp
  have "s1 ! length l1 = take (length l2) s1 ! length l1"
    using less by simp
  then have nth: "s1 ! length l1 = l2 ! length l1" by (simp only: p2)
  have "l2 ! length l1 \<in> set l2" using less by simp
  with c2 nth have nsp: "\<not> is_space (s1 ! length l1)" and nbar: "s1 ! length l1 \<noteq> CHR ''|''"
    by simp_all
  from lt have d: "drop (length l1) s1 = s1 ! length l1 # drop (Suc (length l1)) s1"
    by (simp add: Cons_nth_drop_Suc)
  have "dropWhile is_space (drop (length l1) s1) = s1 ! length l1 # drop (Suc (length l1)) s1"
    using nsp by (simp add: d)
  with bar nbar show False by simp
qed

lemma re_match_language_unique:
  assumes m1: "re_match_language l1 data = Some r1"
    and m2: "re_match_language l2 data = Some r2"
    and c1: "\<forall>c \<in> set l1. \<not> is_space c \<and> c \<noteq> CHR ''|''"
    and c2: "\<forall>c \<in> set l2. \<not> is_space c \<and> c \<noteq> CHR ''|''"
  shows "l1 = l2"
proof -
  from re_match_language_not_shorter [OF m1 m2 c2] re_match_language_not_shorter [OF m2 m1 c1]
  have eq: "length l1 = length l2" by simp
  from re_match_language_prefix [OF m1]
  have "l1 = take (length l1) (dropWhile is_space data)" by simp
  also have "\<dots> = take (length l2) (dropWhile is_space data)" by (simp only: eq)
  also from re_match_language_prefix [OF m2] have "\<dots> = l2" by simp
  finally show ?thesis .
qed

lemma re_match_language_tagged:
  assumes ws: "\<forall>c \<in> set ws. is_space c"
    and ne: "l \<noteq> []"
    and letters: "\<forall>c \<in> set l. \<not> is_space c \<and> c \<noteq> CHR ''|''"
  shows "re_match_language l (l @ ws @ CHR ''|'' # body)
           = Some (l, takeWhile (\<lambda>c. c \<noteq> CHR 0x0A) body)"
proof -
  from ne obtain c l' where l: "l = c # l'" by (cases l) auto
  with letters have "\<not> is_space c" by simp
  then have d1: "dropWhile is_space (l @ ws @ CHR ''|'' # body) = l @ ws @ CHR ''|'' # body"
    by (simp add: l)
  have nb: "\<not> is_space CHR ''|''" by (simp add: is_space_def)
  have "dropWhile is_space (ws @ CHR ''|'' # body) = dropWhile is_space (CHR ''|'' # body)"
    using ws by (simp add: dropWhile_append2)
  then have d2: "dropWhile is_space (ws @ CHR ''|'' # body) = CHR ''|'' # body"
    using nb by simp
  show ?thesis
    unfolding re_match_language_def Let_def d1
    by (simp add: d2)
qed

lemma Constants_languages_letters:
  assumes "l \<in> set Constants_languages"
  shows "l \<noteq> [] \<and> (\<forall>c \<in> set l. \<not> is_space c \<and> c \<noteq> CHR ''|'')"
proof -
  from assms have "l = ''VBScript'' \<or> l = ''JScript'' \<or> l = ''Python''
      \<or> l = ''PythonScript'' \<or> l = ''PerlScript''"
    by (simp add: Constants_languages_def)
  then show ?thesis
    by (elim disjE) (simp_all add: is_space_def)
qed

lemma for_languages_no_match:
  "\<forall>l \<in> set ls. re_match_language l data = None \<Longrightarrow>
   for_languages H ls data h calls = (None, h, calls)"
  by (induction ls) simp_all

lemma for_languages_match_head:
  "re_match_language l data = Some (lang, code) \<Longrightarrow>
   for_languages H (l # ls) data h calls =
     (None, snd (Application_ExecuteScriptCode H code lang h),
      calls @ [CallExecuteScriptCode code lang,
               CallLogMessage
                 (return_value_message (fst (Application_ExecuteScriptCode H code lang h)))
                 (Some siVerbose)])"
  by (simp only: for_languages.simps option.case prod.case Let_def py_format_return_value
        sum.case split: prod.splits)
     simp

lemma for_languages_first_match:
  "\<forall>l' \<in> set ls1. re_match_language l' data = None \<Longrightarrow>
   re_match_language l data = Some (lang, code) \<Longrightarrow>
   for_languages H (ls1 @ l # ls2) data h calls =
     (None, snd (Application_ExecuteScriptCode H code lang h),
      calls @ [CallExecuteScriptCode code lang,
               CallLogMessage
                 (return_value_message (fst (Application_ExecuteScriptCode H code lang h)))
                 (Some siVerbose)])"
proof (induction ls1)
  case Nil
  then show ?case by (simp only: append_Nil for_languages_match_head)
next
  case (Cons a ls1)
  then show ?case by simp
qed

lemma for_languages_never_raises: "fst (for_languages H ls data h calls) = None"
proof (induction ls)
  case Nil
  then show ?case by simp
next
  case (Cons l ls)
  show ?case
  proof (cases "re_match_language l data")
    case None
    with Cons show ?thesis by simp
  next
    case (Some m)
    obtain lang code where m: "m = (lang, code)" by (cases m)
    from Some m show ?thesis by (simp only: for_languages_match_head fst_conv)
  qed
qed

declare for_languages.simps(2) [simp del]

text \<open>
  For a text of the form language, white space, bar, body, with the language one of
  \<open>Constants_languages\<close>, the loop executes the body up to its first line feed with that
  language: no language earlier in the table matches.
\<close>

lemma for_languages_tagged:
  assumes l: "l \<in> set Constants_languages"
    and ws: "\<forall>c \<in> set ws. is_space c"
  shows "for_languages H Constants_languages (l @ ws @ CHR ''|'' # body) h calls =
     (None,
      snd (Application_ExecuteScriptCode H (takeWhile (\<lambda>c. c \<noteq> CHR 0x0A) body) l h),
      calls @ [CallExecuteScriptCode (takeWhile (\<lambda>c. c \<noteq> CHR 0x0A) body) l,
               CallLogMessage
                 (return_value_message
                    (fst (Application_ExecuteScriptCode H
                            (takeWhile (\<lambda>c. c \<noteq> CHR 0x0A) body) l h)))
                 (Some siVerbose)])"
proof -
  from Constants_languages_letters [OF l]
  have ne: "l \<noteq> []" and letters: "\<forall>c \<in> set l. \<not> is_space c \<and> c \<noteq> CHR ''|''"
    by simp_all
  have some: "re_match_language l (l @ ws @ CHR ''|'' # body)
      = Some (l, takeWhile (\<lambda>c. c \<noteq> CHR 0x0A) body)"
    by (rule re_match_language_tagged [OF ws ne letters])
  from split_list_first [OF l] obtain ls1 ls2
    where ls: "Constants_languages = ls1 @ l # ls2" and first: "l \<notin> set ls1"
    by blast
  have none: "\<forall>l' \<in> set ls1. re_match_language l' (l @ ws @ CHR ''|'' # body) = None"
  proof
    fix l'
    assume in1: "l' \<in> set ls1"
    then have "l' \<in> set Constants_languages" by (simp add: ls)
    from Constants_languages_letters [OF this]
    have letters': "\<forall>c \<in> set l'. \<not> is_space c \<and> c \<noteq> CHR ''|''" by simp
    show "re_match_language l' (l @ ws @ CHR ''|'' # body) = None"
    proof (cases "re_match_language l' (l @ ws @ CHR ''|'' # body)")
      case None
      then show ?thesis .
    next
      case (Some r)
      from re_match_language_unique [OF Some some letters' letters] have "l' = l" .
      with in1 first show ?thesis by simp
    qed
  qed
  show ?thesis
    by (simp only: ls for_languages_first_match [OF none some])
qed

lemma DefaultStack_processData_NUL:
  "CHR 0x00 \<in> set (py_strip x) \<Longrightarrow>
   DefaultStackDataRequestsHandler_processData H (x # q) h calls = (Inl TypeError, q, h, calls)"
  by (simp add: Let_def py_os_path_exists_NUL)

lemma DefaultStack_processData_path:
  "CHR 0x00 \<notin> set (py_strip x) \<Longrightarrow> os_path_exists H h (py_strip x) \<Longrightarrow>
   DefaultStackDataRequestsHandler_processData H (x # q) h calls =
     DefaultStackDataRequestsHandler_processData H q
       (snd (Application_ExecuteScript H (py_strip x) h))
       (calls @ [CallExecuteScript (py_strip x)])"
  by (simp add: Let_def py_os_path_exists_plain split: prod.splits)

lemma DefaultStack_processData_not_path:
  assumes nn: "CHR 0x00 \<notin> set (py_strip x)"
    and np: "\<not> os_path_exists H h (py_strip x)"
  shows "DefaultStackDataRequestsHandler_processData H (x # q) h calls =
     DefaultStackDataRequestsHandler_processData H q
       (fst (snd (for_languages H Constants_languages (py_strip x) h calls)))
       (snd (snd (for_languages H Constants_languages (py_strip x) h calls)))"
proof -
  obtain e h1 c1
    where r: "for_languages H Constants_languages (py_strip x) h calls = (e, h1, c1)"
    by (cases "for_languages H Constants_languages (py_strip x) h calls") auto
  with for_languages_never_raises [of H Constants_languages "py_strip x" h calls]
  have "e = None" by simp
  with nn np r show ?thesis by (simp add: Let_def py_os_path_exists_plain)
qed

declare DefaultStackDataRequestsHandler_processData.simps(2) [simp del]

text \<open>Concrete runs, on a host with the listed files.\<close>

lemma no_files: "\<not> os_path_exists (listed_files_host []) () p"
  by (simp add: listed_files_host_def)

lemma listed_files_host_run:
  "Application_ExecuteScript (listed_files_host fs) p h = (''None'', h)"
  "Application_ExecuteScriptCode (listed_files_host fs) c l h = (''None'', h)"
  by (simp_all add: listed_files_host_def)

lemma Pouet_strip:
  "py_strip ''JScript | LogMessage(\"Pouet\")'' = ''JScript | LogMessage(\"Pouet\")''"
  by (simp add: py_strip_def is_space_def)

lemma Pouet_no_NUL: "CHR 0x00 \<notin> set ''JScript | LogMessage(\"Pouet\")''"
  by simp

lemma Pouet_form:
  "''JScript | LogMessage(\"Pouet\")'' = ''JScript'' @ '' '' @ CHR ''|'' # '' LogMessage(\"Pouet\")''"
  by simp

lemma Pouet_body:
  "takeWhile (\<lambda>c. c \<noteq> CHR 0x0A) '' LogMessage(\"Pouet\")'' = '' LogMessage(\"Pouet\")''"
  by simp

lemma JScript_x_strip: "py_strip ''JScript | x'' = ''JScript | x''"
  by (simp add: py_strip_def is_space_def)

lemma PythonScript_strip: "py_strip ''  PythonScript | x = 1  '' = ''PythonScript | x = 1''"
  by (simp add: py_strip_def is_space_def)

lemma PythonScript_match:
  "re_match_language ''VBScript'' ''PythonScript | x = 1'' = None"
  "re_match_language ''JScript'' ''PythonScript | x = 1'' = None"
  "re_match_language ''Python'' ''PythonScript | x = 1'' = None"
  "re_match_language ''PythonScript'' ''PythonScript | x = 1'' = Some (''PythonScript'', '' x = 1'')"
  by (simp_all add: re_match_language_def is_space_def)

lemma two_lines_strip:
  "py_strip ''Python | import sys\<newline>print 1'' = ''Python | import sys\<newline>print 1''"
  by (simp add: py_strip_def is_space_def)

lemma two_lines_form:
  "''Python | import sys\<newline>print 1''
     = ''Python'' @ '' '' @ CHR ''|'' # '' import sys\<newline>print 1''"
  by simp

lemma two_lines_body:
  "takeWhile (\<lambda>c. c \<noteq> CHR 0x0A) '' import sys\<newline>print 1'' = '' import sys''"
  by simp

lemma Hello_strip: "py_strip ''Hello World!'' = ''Hello World!''"
  by (simp add: py_strip_def is_space_def)

lemma Hello_no_match:
  "re_match_language ''VBScript'' ''Hello World!'' = None"
  "re_match_language ''JScript'' ''Hello World!'' = None"
  "re_match_language ''Python'' ''Hello World!'' = None"
  "re_match_language ''PythonScript'' ''Hello World!'' = None"
  "re_match_language ''PerlScript'' ''Hello World!'' = None"
  by (simp_all add: re_match_language_def is_space_def)

lemma NUL_strip: "py_strip [CHR ''a'', CHR 0x00, CHR ''b''] = [CHR ''a'', CHR 0x00, CHR ''b'']"
  by (simp add: py_strip_def is_space_def)

lemma NUL_no_match:
  "re_match_language ''VBScript'' [CHR ''a'', CHR 0x00, CHR ''b''] = None"
  "re_match_language ''JScript'' [CHR ''a'', CHR 0x00, CHR ''b''] = None"
  "re_match_language ''Python'' [CHR ''a'', CHR 0x00, CHR ''b''] = None"
  "re_match_language ''PythonScript'' [CHR ''a'', CHR 0x00, CHR ''b''] = None"
  "re_match_language ''PerlScript'' [CHR ''a'', CHR 0x00, CHR ''b''] = None"
  by (simp_all add: re_match_language_def is_space_def)

lemma JScript_in_languages: "''JScript'' \<in> set Constants_languages"
  by (simp add: Constants_languages_def)

lemma Python_in_languages: "''Python'' \<in> set Constants_languages"
  by (simp add: Constants_languages_def)

lemma one_space: "\<forall>c \<in> set '' ''. is_space c"
  by (simp add: is_space_def)

lemma DefaultStack_processData_tagged:
  assumes nn: "CHR 0x00 \<notin> set (py_strip x)"
    and np: "\<not> os_path_exists H h (py_strip x)"
    and l: "l \<in> set Constants_languages"
    and form: "py_strip x = l @ ws @ CHR ''|'' # body"
    and ws: "\<forall>c \<in> set ws. is_space c"
  shows "DefaultStackDataRequestsHandler_processData H (x # q) h calls =
        DefaultStackDataRequestsHandler_processData H q
          (snd (Application_ExecuteScriptCode H (takeWhile (\<lambda>c. c \<noteq> CHR 0x0A) body) l h))
          (calls @ [CallExecuteScriptCode (takeWhile (\<lambda>c. c \<noteq> CHR 0x0A) body) l,
                    CallLogMessage
                      (return_value_message
                         (fst (Application_ExecuteScriptCode H
                                 (takeWhile (\<lambda>c. c \<noteq> CHR 0x0A) body) l h)))
                      (Some siVerbose)])"
  by (simp only: DefaultStack_processData_not_path [OF nn np] form
        for_languages_tagged [OF l ws] fst_conv snd_conv)

lemma DefaultStack_processData_two_lines:
  "DefaultStackDataRequestsHandler_processData (listed_files_host [])
      [''Python | import sys\<newline>print 1''] () []
    = (Inr (PyBool True), [], (),
       [CallExecuteScriptCode '' import sys'' ''Python'',
        CallLogMessage (return_value_message ''None'') (Some siVerbose)])"
proof -
  have nn: "CHR 0x00 \<notin> set (py_strip ''Python | import sys\<newline>print 1'')"
    by (simp add: two_lines_strip)
  have np: "\<not> os_path_exists (listed_files_host []) ()
              (py_strip ''Python | import sys\<newline>print 1'')"
    by (rule no_files)
  have form: "py_strip ''Python | import sys\<newline>print 1''
      = ''Python'' @ '' '' @ CHR ''|'' # '' import sys\<newline>print 1''"
    by (simp add: two_lines_strip)
  show ?thesis
    by (simp only: DefaultStack_processData_tagged [OF nn np Python_in_languages form one_space]
          two_lines_body listed_files_host_run fst_conv snd_conv append_Nil
          DefaultStackDataRequestsHandler_processData.simps(1))
qed

text \<open>
  C5, as stated: the body passed to \<^verbatim>\<open>ExecuteScriptCode\<close> is everything after the first
  bar. It is not when the blob has a second line: of
  \<^verbatim>\<open>Python | import sys\<close>, line feed, \<^verbatim>\<open>print 1\<close>, only \<^verbatim>\<open> import sys\<close> is executed.
\<close>

theorem DefaultStack_body_stops_at_line_feed:
  "DefaultStackDataRequestsHandler_processData (listed_files_host [])
      [''Python | import sys\<newline>print 1''] () []
    = (Inr (PyBool True), [], (),
       [CallExecuteScriptCode '' import sys'' ''Python'',
        CallLogMessage (return_value_message ''None'') (Some siVerbose)])
   \<and> '' import sys'' \<noteq> '' import sys\<newline>print 1''"
  by (simp add: DefaultStack_processData_two_lines)

text \<open>
  C5, amended. For a blob whose stripped text has no NUL byte: if the text is an
  existing path it is passed to \<^verbatim>\<open>Application.ExecuteScript\<close> and to nothing else,
  whatever the text looks like; if it is not a path and reads language, white space,
  bar, body, with the language one of the five, it is passed to
  \<^verbatim>\<open>Application.ExecuteScriptCode\<close> with that language and with the body up to its
  first line feed (the whole body when it has one line), leading space kept, and the
  returned value is logged. The first language of \<open>Constants_languages\<close> whose pattern
  matches is the one executed, and the order of the table is VBScript, JScript, Python,
  PythonScript, PerlScript. The blob \<^verbatim>\<open>JScript | LogMessage("Pouet")\<close>, when not a
  path, is executed with the tag \<^verbatim>\<open>JScript\<close> and the code
  \<^verbatim>\<open> LogMessage("Pouet")\<close>.
\<close>

theorem DefaultStack_dispatch:
  "(CHR 0x00 \<notin> set (py_strip x) \<and> os_path_exists H h (py_strip x) \<longrightarrow>
      DefaultStackDataRequestsHandler_processData H (x # q) h calls =
        DefaultStackDataRequestsHandler_processData H q
          (snd (Application_ExecuteScript H (py_strip x) h))
          (calls @ [CallExecuteScript (py_strip x)]))
   \<and> (CHR 0x00 \<notin> set (py_strip x) \<and> \<not> os_path_exists H h (py_strip x)
       \<and> l \<in> set Constants_languages
       \<and> py_strip x = l @ ws @ CHR ''|'' # body
       \<and> (\<forall>c \<in> set ws. is_space c) \<longrightarrow>
      DefaultStackDataRequestsHandler_processData H (x # q) h calls =
        DefaultStackDataRequestsHandler_processData H q
          (snd (Application_ExecuteScriptCode H (takeWhile (\<lambda>c. c \<noteq> CHR 0x0A) body) l h))
          (calls @ [CallExecuteScriptCode (takeWhile (\<lambda>c. c \<noteq> CHR 0x0A) body) l,
                    CallLogMessage
                      (return_value_message
                         (fst (Application_ExecuteScriptCode H
                                 (takeWhile (\<lambda>c. c \<noteq> CHR 0x0A) body) l h)))
                      (Some siVerbose)]))
   \<and> (CHR 0x00 \<notin> set (py_strip x) \<and> \<not> os_path_exists H h (py_strip x)
       \<and> Constants_languages = ls1 @ l' # ls2
       \<and> (\<forall>k \<in> set ls1. re_match_language k (py_strip x) = None)
       \<and> re_match_language l' (py_strip x) = Some (lang, code) \<longrightarrow>
      DefaultStackDataRequestsHandler_processData H (x # q) h calls =
        DefaultStackDataRequestsHandler_processData H q
          (snd (Application_ExecuteScriptCode H code lang h))
          (calls @ [CallExecuteScriptCode code lang,
                    CallLogMessage
                      (return_value_message
                         (fst (Application_ExecuteScriptCode H code lang h)))
                      (Some siVerbose)]))
   \<and> (\<not> os_path_exists H h ''JScript | LogMessage(\"Pouet\")'' \<longrightarrow>
      DefaultStackDataRequestsHandler_processData H [''JScript | LogMessage(\"Pouet\")''] h calls =
        (Inr (PyBool True), [],
         snd (Application_ExecuteScriptCode H '' LogMessage(\"Pouet\")'' ''JScript'' h),
         calls @ [CallExecuteScriptCode '' LogMessage(\"Pouet\")'' ''JScript'',
                  CallLogMessage
                    (return_value_message
                       (fst (Application_ExecuteScriptCode H '' LogMessage(\"Pouet\")''
                               ''JScript'' h)))
                    (Some siVerbose)]))
   \<and> Constants_languages = [''VBScript'', ''JScript'', ''Python'', ''PythonScript'', ''PerlScript'']"
proof -
  have path: "CHR 0x00 \<notin> set (py_strip x) \<and> os_path_exists H h (py_strip x) \<longrightarrow>
      DefaultStackDataRequestsHandler_processData H (x # q) h calls =
        DefaultStackDataRequestsHandler_processData H q
          (snd (Application_ExecuteScript H (py_strip x) h))
          (calls @ [CallExecuteScript (py_strip x)])"
    by (simp add: DefaultStack_processData_path)
  have tagged: "CHR 0x00 \<notin> set (py_strip x) \<and> \<not> os_path_exists H h (py_strip x)
       \<and> l \<in> set Constants_languages
       \<and> py_strip x = l @ ws @ CHR ''|'' # body
       \<and> (\<forall>c \<in> set ws. is_space c) \<longrightarrow>
      DefaultStackDataRequestsHandler_processData H (x # q) h calls =
        DefaultStackDataRequestsHandler_processData H q
          (snd (Application_ExecuteScriptCode H (takeWhile (\<lambda>c. c \<noteq> CHR 0x0A) body) l h))
          (calls @ [CallExecuteScriptCode (takeWhile (\<lambda>c. c \<noteq> CHR 0x0A) body) l,
                    CallLogMessage
                      (return_value_message
                         (fst (Application_ExecuteScriptCode H
                                 (takeWhile (\<lambda>c. c \<noteq> CHR 0x0A) body) l h)))
                      (Some siVerbose)])"
  proof
    assume a: "CHR 0x00 \<notin> set (py_strip x) \<and> \<not> os_path_exists H h (py_strip x)
       \<and> l \<in> set Constants_languages
       \<and> py_strip x = l @ ws @ CHR ''|'' # body
       \<and> (\<forall>c \<in> set ws. is_space c)"
    then have nn: "CHR 0x00 \<notin> set (py_strip x)"
      and np: "\<not> os_path_exists H h (py_strip x)"
      and l: "l \<in> set Constants_languages"
      and form: "py_strip x = l @ ws @ CHR ''|'' # body"
      and ws: "\<forall>c \<in> set ws. is_space c"
      by blast+
    show "DefaultStackDataRequestsHandler_processData H (x # q) h calls =
        DefaultStackDataRequestsHandler_processData H q
          (snd (Application_ExecuteScriptCode H (takeWhile (\<lambda>c. c \<noteq> CHR 0x0A) body) l h))
          (calls @ [CallExecuteScriptCode (takeWhile (\<lambda>c. c \<noteq> CHR 0x0A) body) l,
                    CallLogMessage
                      (return_value_message
                         (fst (Application_ExecuteScriptCode H
                                 (takeWhile (\<lambda>c. c \<noteq> CHR 0x0A) body) l h)))
                      (Some siVerbose)])"
      by (rule DefaultStack_processData_tagged [OF nn np l form ws])
  qed
  have first: "CHR 0x00 \<notin> set (py_strip x) \<and> \<not> os_path_exists H h (py_strip x)
       \<and> Constants_languages = ls1 @ l' # ls2
       \<and> (\<forall>k \<in> set ls1. re_match_language k (py_strip x) = None)
       \<and> re_match_language l' (py_strip x) = Some (lang, code) \<longrightarrow>
      DefaultStackDataRequestsHandler_processData H (x # q) h calls =
        DefaultStackDataRequestsHandler_processData H q
          (snd (Application_ExecuteScriptCode H code lang h))
          (calls @ [CallExecuteScriptCode code lang,
                    CallLogMessage
                      (return_value_message
                         (fst (Application_ExecuteScriptCode H code lang h)))
                      (Some siVerbose)])"
  proof
    assume a: "CHR 0x00 \<notin> set (py_strip x) \<and> \<not> os_path_exists H h (py_strip x)
       \<and> Constants_languages = ls1 @ l' # ls2
       \<and> (\<forall>k \<in> set ls1. re_match_language k (py_strip x) = None)
       \<and> re_match_language l' (py_strip x) = Some (lang, code)"
    then have nn: "CHR 0x00 \<notin> set (py_strip x)"
      and np: "\<not> os_path_exists H h (py_strip x)"
      and ls: "Constants_languages = ls1 @ l' # ls2"
      and none: "\<forall>k \<in> set ls1. re_match_language k (py_strip x) = None"
      and some: "re_match_language l' (py_strip x) = Some (lang, code)"
      by blast+
    show "DefaultStackDataRequestsHandler_processData H (x # q) h calls =
        DefaultStackDataRequestsHandler_processData H q
          (snd (Application_ExecuteScriptCode H code lang h))
          (calls @ [CallExecuteScriptCode code lang,
                    CallLogMessage
                      (return_value_message
                         (fst (Application_ExecuteScriptCode H code lang h)))
                      (Some siVerbose)])"
      by (simp only: DefaultStack_processData_not_path [OF nn np] ls
            for_languages_first_match [OF none some] fst_conv snd_conv)
  qed
  have pouet: "\<not> os_path_exists H h ''JScript | LogMessage(\"Pouet\")'' \<longrightarrow>
      DefaultStackDataRequestsHandler_processData H [''JScript | LogMessage(\"Pouet\")''] h calls =
        (Inr (PyBool True), [],
         snd (Application_ExecuteScriptCode H '' LogMessage(\"Pouet\")'' ''JScript'' h),
         calls @ [CallExecuteScriptCode '' LogMessage(\"Pouet\")'' ''JScript'',
                  CallLogMessage
                    (return_value_message
                       (fst (Application_ExecuteScriptCode H '' LogMessage(\"Pouet\")''
                               ''JScript'' h)))
                    (Some siVerbose)])"
  proof
    assume "\<not> os_path_exists H h ''JScript | LogMessage(\"Pouet\")''"
    then have np: "\<not> os_path_exists H h (py_strip ''JScript | LogMessage(\"Pouet\")'')"
      by (simp add: Pouet_strip)
    have nn: "CHR 0x00 \<notin> set (py_strip ''JScript | LogMessage(\"Pouet\")'')"
      by (simp add: Pouet_strip)
    have form: "py_strip ''JScript | LogMessage(\"Pouet\")''
        = ''JScript'' @ '' '' @ CHR ''|'' # '' LogMessage(\"Pouet\")''"
      by (simp add: Pouet_strip)
    show "DefaultStackDataRequestsHandler_processData H [''JScript | LogMessage(\"Pouet\")''] h calls =
        (Inr (PyBool True), [],
         snd (Application_ExecuteScriptCode H '' LogMessage(\"Pouet\")'' ''JScript'' h),
         calls @ [CallExecuteScriptCode '' LogMessage(\"Pouet\")'' ''JScript'',
                  CallLogMessage
                    (return_value_message
                       (fst (Application_ExecuteScriptCode H '' LogMessage(\"Pouet\")''
                               ''JScript'' h)))
                    (Some siVerbose)])"
      by (simp only: DefaultStack_processData_tagged [OF nn np JScript_in_languages form one_space]
            Pouet_body DefaultStackDataRequestsHandler_processData.simps(1))
  qed
  have order: "Constants_languages
      = [''VBScript'', ''JScript'', ''Python'', ''PythonScript'', ''PerlScript'']"
    by (simp add: Constants_languages_def)
  from path tagged first pouet order show ?thesis
    by blast
qed

theorem DefaultStack_dispatch_witness:
  "os_path_exists (listed_files_host [''JScript | x'']) () (py_strip ''JScript | x'')
   \<and> CHR 0x00 \<notin> set (py_strip ''JScript | x'')
   \<and> DefaultStackDataRequestsHandler_processData (listed_files_host [''JScript | x''])
        [''JScript | x''] () []
      = (Inr (PyBool True), [], (), [CallExecuteScript ''JScript | x''])
   \<and> \<not> os_path_exists (listed_files_host []) () ''JScript | LogMessage(\"Pouet\")''
   \<and> DefaultStackDataRequestsHandler_processData (listed_files_host [])
        [''JScript | LogMessage(\"Pouet\")''] () []
      = (Inr (PyBool True), [], (),
         [CallExecuteScriptCode '' LogMessage(\"Pouet\")'' ''JScript'',
          CallLogMessage (return_value_message ''None'') (Some siVerbose)])
   \<and> CHR 0x00 \<notin> set (py_strip ''Python | import sys\<newline>print 1'')
   \<and> \<not> os_path_exists (listed_files_host []) ()
          (py_strip ''Python | import sys\<newline>print 1'')
   \<and> ''Python'' \<in> set Constants_languages
   \<and> py_strip ''Python | import sys\<newline>print 1''
      = ''Python'' @ '' '' @ CHR ''|'' # '' import sys\<newline>print 1''
   \<and> is_space CHR '' ''
   \<and> DefaultStackDataRequestsHandler_processData (listed_files_host [])
        [''Python | import sys\<newline>print 1''] () []
      = (Inr (PyBool True), [], (),
         [CallExecuteScriptCode '' import sys'' ''Python'',
          CallLogMessage (return_value_message ''None'') (Some siVerbose)])
   \<and> CHR 0x00 \<notin> set (py_strip ''  PythonScript | x = 1  '')
   \<and> \<not> os_path_exists (listed_files_host []) () (py_strip ''  PythonScript | x = 1  '')
   \<and> Constants_languages
      = [''VBScript'', ''JScript'', ''Python''] @ ''PythonScript'' # [''PerlScript'']
   \<and> re_match_language ''VBScript'' (py_strip ''  PythonScript | x = 1  '') = None
   \<and> re_match_language ''JScript'' (py_strip ''  PythonScript | x = 1  '') = None
   \<and> re_match_language ''Python'' (py_strip ''  PythonScript | x = 1  '') = None
   \<and> re_match_language ''PythonScript'' (py_strip ''  PythonScript | x = 1  '')
      = Some (''PythonScript'', '' x = 1'')
   \<and> DefaultStackDataRequestsHandler_processData (listed_files_host [])
        [''  PythonScript | x = 1  ''] () []
      = (Inr (PyBool True), [], (),
         [CallExecuteScriptCode '' x = 1'' ''PythonScript'',
          CallLogMessage (return_value_message ''None'') (Some siVerbose)])"
proof -
  have ex: "os_path_exists (listed_files_host [''JScript | x'']) () (py_strip ''JScript | x'')"
    by (simp add: JScript_x_strip) (simp add: listed_files_host_def)
  have nn1: "CHR 0x00 \<notin> set (py_strip ''JScript | x'')"
    by (simp add: JScript_x_strip)
  have nn2: "CHR 0x00 \<notin> set (py_strip ''Python | import sys\<newline>print 1'')"
    by (simp add: two_lines_strip)
  have nn3: "CHR 0x00 \<notin> set (py_strip ''  PythonScript | x = 1  '')"
    by (simp add: PythonScript_strip)
  have form: "py_strip ''Python | import sys\<newline>print 1''
      = ''Python'' @ '' '' @ CHR ''|'' # '' import sys\<newline>print 1''"
    by (simp add: two_lines_strip)
  have sp: "is_space CHR '' ''" by (simp add: is_space_def)
  have langs: "Constants_languages
      = [''VBScript'', ''JScript'', ''Python''] @ ''PythonScript'' # [''PerlScript'']"
    by (simp add: Constants_languages_def)
  have a: "DefaultStackDataRequestsHandler_processData (listed_files_host [''JScript | x''])
        [''JScript | x''] () []
      = (Inr (PyBool True), [], (), [CallExecuteScript ''JScript | x''])"
    using ex nn1 DefaultStack_dispatch
          [where H = "listed_files_host [''JScript | x'']" and h = "()"
             and x = "''JScript | x''" and q = "[]" and calls = "[]"]
    by (simp add: JScript_x_strip listed_files_host_run)
  have b: "DefaultStackDataRequestsHandler_processData (listed_files_host [])
        [''JScript | LogMessage(\"Pouet\")''] () []
      = (Inr (PyBool True), [], (),
         [CallExecuteScriptCode '' LogMessage(\"Pouet\")'' ''JScript'',
          CallLogMessage (return_value_message ''None'') (Some siVerbose)])"
    using DefaultStack_dispatch
          [where H = "listed_files_host []" and h = "()" and calls = "[]"]
    by (simp add: no_files listed_files_host_run)
  have c: "DefaultStackDataRequestsHandler_processData (listed_files_host [])
        [''Python | import sys\<newline>print 1''] () []
      = (Inr (PyBool True), [], (),
         [CallExecuteScriptCode '' import sys'' ''Python'',
          CallLogMessage (return_value_message ''None'') (Some siVerbose)])"
    using nn2 form sp Python_in_languages DefaultStack_dispatch
          [where H = "listed_files_host []" and h = "()" and calls = "[]" and q = "[]"
             and x = "''Python | import sys\<newline>print 1''"
             and l = "''Python''" and ws = "'' ''" and body = "'' import sys\<newline>print 1''"]
    by (simp add: no_files listed_files_host_run)
  have d: "DefaultStackDataRequestsHandler_processData (listed_files_host [])
        [''  PythonScript | x = 1  ''] () []
      = (Inr (PyBool True), [], (),
         [CallExecuteScriptCode '' x = 1'' ''PythonScript'',
          CallLogMessage (return_value_message ''None'') (Some siVerbose)])"
    using nn3 langs DefaultStack_dispatch
          [where H = "listed_files_host []" and h = "()" and calls = "[]" and q = "[]"
             and x = "''  PythonScript | x = 1  ''"
             and ?ls1.0 = "[''VBScript'', ''JScript'', ''Python'']" and l' = "''PythonScript''"
             and ?ls2.0 = "[''PerlScript'']" and lang = "''PythonScript''" and code = "'' x = 1''"]
    by (simp add: no_files PythonScript_strip PythonScript_match listed_files_host_run)
  from ex nn1 nn2 nn3 form sp langs a b c d Python_in_languages show ?thesis
    by (simp add: no_files PythonScript_strip PythonScript_match)
qed

lemma NUL_in_blob: "CHR 0x00 \<in> set (py_strip [CHR ''a'', CHR 0x00, CHR ''b''])"
  by (simp add: NUL_strip)

text \<open>
  C8, as stated: every blob whose stripped text is neither an existing path nor matched
  by any of the five patterns is dropped with no error, and the rest of the queue is
  processed. Not every one: the blob of the three bytes \<^verbatim>\<open>a\<close>, NUL, \<^verbatim>\<open>b\<close> is no
  path and matches no pattern, and \<^verbatim>\<open>os.path.exists\<close> raises TypeError for it;
  \<^verbatim>\<open>processData\<close> raises with the blob popped and the next blob still queued.
\<close>

theorem DefaultStack_NUL_blob_raises_TypeError:
  "\<not> os_path_exists (listed_files_host []) () (py_strip [CHR ''a'', CHR 0x00, CHR ''b''])
   \<and> re_match_language ''VBScript'' (py_strip [CHR ''a'', CHR 0x00, CHR ''b'']) = None
   \<and> re_match_language ''JScript'' (py_strip [CHR ''a'', CHR 0x00, CHR ''b'']) = None
   \<and> re_match_language ''Python'' (py_strip [CHR ''a'', CHR 0x00, CHR ''b'']) = None
   \<and> re_match_language ''PythonScript'' (py_strip [CHR ''a'', CHR 0x00, CHR ''b'']) = None
   \<and> re_match_language ''PerlScript'' (py_strip [CHR ''a'', CHR 0x00, CHR ''b'']) = None
   \<and> DefaultStackDataRequestsHandler_processData (listed_files_host [])
        [[CHR ''a'', CHR 0x00, CHR ''b''], ''JScript | x''] () []
      = (Inl TypeError, [''JScript | x''], (), [])"
  by (simp add: no_files NUL_strip NUL_no_match DefaultStack_processData_NUL)

text \<open>
  C8, amended. A blob whose stripped text has no NUL byte, is not an existing path and
  matches the pattern of none of the five languages is dropped: \<^verbatim>\<open>processData\<close> goes
  on with the rest of the requests stack from the same host state and with no call to
  the host added, and raises nothing for it. A blob whose stripped text has a NUL byte
  makes \<^verbatim>\<open>processData\<close> raise the TypeError of \<^verbatim>\<open>os.path.exists\<close>: the blob is
  popped, no call to the host is made for it, and the rest of the requests stack stays
  queued.
\<close>

theorem DefaultStack_unrecognized_dropped:
  "(CHR 0x00 \<notin> set (py_strip x) \<and> \<not> os_path_exists H h (py_strip x)
      \<and> (\<forall>l \<in> set Constants_languages. re_match_language l (py_strip x) = None) \<longrightarrow>
      DefaultStackDataRequestsHandler_processData H (x # q) h calls =
        DefaultStackDataRequestsHandler_processData H q h calls
      \<and> DefaultStackDataRequestsHandler_processData H [x] h calls
          = (Inr (PyBool True), [], h, calls))
   \<and> (CHR 0x00 \<in> set (py_strip x) \<longrightarrow>
      DefaultStackDataRequestsHandler_processData H (x # q) h calls
        = (Inl TypeError, q, h, calls))"
proof -
  have dropped: "CHR 0x00 \<notin> set (py_strip x) \<and> \<not> os_path_exists H h (py_strip x)
      \<and> (\<forall>l \<in> set Constants_languages. re_match_language l (py_strip x) = None) \<longrightarrow>
      DefaultStackDataRequestsHandler_processData H (x # q) h calls =
        DefaultStackDataRequestsHandler_processData H q h calls
      \<and> DefaultStackDataRequestsHandler_processData H [x] h calls
          = (Inr (PyBool True), [], h, calls)"
  proof
    assume a: "CHR 0x00 \<notin> set (py_strip x) \<and> \<not> os_path_exists H h (py_strip x)
      \<and> (\<forall>l \<in> set Constants_languages. re_match_language l (py_strip x) = None)"
    then have nn: "CHR 0x00 \<notin> set (py_strip x)"
      and np: "\<not> os_path_exists H h (py_strip x)"
      and none: "\<forall>l \<in> set Constants_languages. re_match_language l (py_strip x) = None"
      by blast+
    show "DefaultStackDataRequestsHandler_processData H (x # q) h calls =
        DefaultStackDataRequestsHandler_processData H q h calls
      \<and> DefaultStackDataRequestsHandler_processData H [x] h calls
          = (Inr (PyBool True), [], h, calls)"
      by (simp only: DefaultStack_processData_not_path [OF nn np]
            for_languages_no_match [OF none] fst_conv snd_conv
            DefaultStackDataRequestsHandler_processData.simps(1))
  qed
  have raised: "CHR 0x00 \<in> set (py_strip x) \<longrightarrow>
      DefaultStackDataRequestsHandler_processData H (x # q) h calls
        = (Inl TypeError, q, h, calls)"
    by (simp add: DefaultStack_processData_NUL)
  from dropped raised show ?thesis by blast
qed

theorem DefaultStack_unrecognized_dropped_witness:
  "CHR 0x00 \<notin> set (py_strip ''Hello World!'')
   \<and> \<not> os_path_exists (listed_files_host []) () (py_strip ''Hello World!'')
   \<and> re_match_language ''VBScript'' (py_strip ''Hello World!'') = None
   \<and> re_match_language ''JScript'' (py_strip ''Hello World!'') = None
   \<and> re_match_language ''Python'' (py_strip ''Hello World!'') = None
   \<and> re_match_language ''PythonScript'' (py_strip ''Hello World!'') = None
   \<and> re_match_language ''PerlScript'' (py_strip ''Hello World!'') = None
   \<and> DefaultStackDataRequestsHandler_processData (listed_files_host [])
        [''Hello World!'', ''JScript | LogMessage(\"Pouet\")''] () []
      = DefaultStackDataRequestsHandler_processData (listed_files_host [])
        [''JScript | LogMessage(\"Pouet\")''] () []
   \<and> DefaultStackDataRequestsHandler_processData (listed_files_host [])
        [''Hello World!''] () []
      = (Inr (PyBool True), [], (), [])
   \<and> CHR 0x00 \<in> set (py_strip [CHR ''a'', CHR 0x00, CHR ''b''])
   \<and> DefaultStackDataRequestsHandler_processData (listed_files_host [])
        [[CHR ''a'', CHR 0x00, CHR ''b''], ''Hello World!''] () []
      = (Inl TypeError, [''Hello World!''], (), [])"
proof -
  have nn: "CHR 0x00 \<notin> set (py_strip ''Hello World!'')"
    by (simp add: Hello_strip)
  have np: "\<not> os_path_exists (listed_files_host []) () (py_strip ''Hello World!'')"
    by (rule no_files)
  have none: "\<forall>l \<in> set Constants_languages. re_match_language l (py_strip ''Hello World!'') = None"
    by (simp add: Constants_languages_def Hello_strip Hello_no_match)
  from nn np none NUL_in_blob
    DefaultStack_unrecognized_dropped
      [where H = "listed_files_host []" and h = "()" and x = "''Hello World!''"
         and q = "[''JScript | LogMessage(\"Pouet\")'']" and calls = "[]"]
    DefaultStack_unrecognized_dropped
      [where H = "listed_files_host []" and h = "()" and x = "[CHR ''a'', CHR 0x00, CHR ''b'']"
         and q = "[''Hello World!'']" and calls = "[]"]
  show ?thesis
    by (simp add: Hello_strip Hello_no_match)
qed

section \<open>processData on a drained requests stack\<close>

declare PythonStackDataRequestsHandler_processData.simps(2) [simp del]










end
